theory Spec2Isabelle
  imports Complex_Main
begin

section \<open>Python values\<close>

text \<open>
  The events of \<^verbatim>\<open>rasa/core/events/__init__.py\<close> carry untyped Python values: whatever
  a decoded JSON record holds. A value is \<open>None\<close>, a bool, an int, a float, a str, a list, a
  dict or a \<open>datetime\<close>. A str is the list of its code points, restricted to the code
  points below 256 that a \<open>char\<close> holds. A float is the rational it denotes (no NaN, no
  infinity). A dict is the list of its items in insertion order (Python dicts keep it), with
  str keys. A \<open>datetime\<close> is identified with the text its \<open>isoformat()\<close> gives.
\<close>

datatype datetime = Datetime string

fun isoformat :: "datetime \<Rightarrow> string" where
  "isoformat (Datetime s) = s"

datatype pyval =
    PNone
  | PBool bool
  | PInt int
  | PFloat rat
  | PStr string
  | PList "pyval list"
  | PDict "(string \<times> pyval) list"
  | PDatetime datetime

type_synonym pydict = "(string \<times> pyval) list"

text \<open>Truth value testing, as \<open>if x\<close>, \<open>x or y\<close> and \<open>not x\<close> do it.\<close>

fun truthy :: "pyval \<Rightarrow> bool" where
  "truthy PNone = False"
| "truthy (PBool b) = b"
| "truthy (PInt n) = (n \<noteq> 0)"
| "truthy (PFloat r) = (r \<noteq> 0)"
| "truthy (PStr s) = (s \<noteq> [])"
| "truthy (PList xs) = (xs \<noteq> [])"
| "truthy (PDict d) = (d \<noteq> [])"
| "truthy (PDatetime d) = True"

definition py_or :: "pyval \<Rightarrow> pyval \<Rightarrow> pyval" where
  "py_or a b = (if truthy a then a else b)"

text \<open>\<open>type(x).__name__\<close>, which \<open>dateutil\<close> and \<open>json\<close> put into their error messages,
  and the name of the type as the interpreter puts it into the messages of its own
  attribute and type errors (\<open>datetime\<close> is \<open>datetime.datetime\<close> there).\<close>

fun class_name :: "pyval \<Rightarrow> string" where
  "class_name PNone = ''NoneType''"
| "class_name (PBool b) = ''bool''"
| "class_name (PInt n) = ''int''"
| "class_name (PFloat r) = ''float''"
| "class_name (PStr s) = ''str''"
| "class_name (PList xs) = ''list''"
| "class_name (PDict d) = ''dict''"
| "class_name (PDatetime d) = ''datetime''"

definition tp_name :: "pyval \<Rightarrow> string" where
  "tp_name v = (case v of PDatetime d \<Rightarrow> ''datetime.datetime'' | _ \<Rightarrow> class_name v)"

subsection \<open>Dicts\<close>

text \<open>\<open>k in d\<close>, \<open>d.get(k)\<close>, \<open>d.get(k, default)\<close>, \<open>d[k] = v\<close> and \<open>d.update(other)\<close>.
  Storing under a key the dict already has keeps the key's position.\<close>

definition dict_contains :: "pydict \<Rightarrow> string \<Rightarrow> bool" where
  "dict_contains d k = (map_of d k \<noteq> None)"

definition dict_get_default :: "pydict \<Rightarrow> string \<Rightarrow> pyval \<Rightarrow> pyval" where
  "dict_get_default d k dflt = (case map_of d k of None \<Rightarrow> dflt | Some v \<Rightarrow> v)"

definition dict_get :: "pydict \<Rightarrow> string \<Rightarrow> pyval" where
  "dict_get d k = dict_get_default d k PNone"

fun dict_set :: "pydict \<Rightarrow> string \<Rightarrow> pyval \<Rightarrow> pydict" where
  "dict_set [] k v = [(k, v)]"
| "dict_set ((k', v') # d) k v =
     (if k' = k then (k, v) # d else (k', v') # dict_set d k v)"

fun dict_update :: "pydict \<Rightarrow> pydict \<Rightarrow> pydict" where
  "dict_update d [] = d"
| "dict_update d ((k, v) # other) = dict_update (dict_set d k v) other"

section \<open>Errors, the environment and the world\<close>

datatype error =
    ValueError string
  | KeyError string
  | AttributeError string
  | TypeError string

text \<open>\<open>x.get\<close> on a value that is no dict.\<close>

definition no_attribute :: "pyval \<Rightarrow> string \<Rightarrow> error" where
  "no_attribute v a =
     AttributeError ([CHR 0x27] @ tp_name v @ [CHR 0x27] @ '' object has no attribute ''
                     @ [CHR 0x27] @ a @ [CHR 0x27])"

text \<open>
  Library functions the module calls and does not define are parameters:
  \<open>dateutil.parser.parse\<close> on a str, \<open>jsonpickle.encode\<close>, \<open>str()\<close> of a value that is
  neither a str nor \<open>None\<close>, \<open>float.__repr__\<close>, \<open>hash\<close> of a hashable value that is no int,
  and the hash of a tuple from the hashes of its items. So is one choice of the
  interpreter: a dict comprehension \<open>{k: v for ...}\<close> evaluates \<open>k\<close> before \<open>v\<close> from
  Python 3.8 on, and \<open>v\<close> before \<open>k\<close> in the versions before.
\<close>

record externals =
  parser_parse :: "string \<Rightarrow> error + datetime"
  jsonpickle_encode :: "pyval \<Rightarrow> string"
  builtin_str :: "pyval \<Rightarrow> string"
  float_repr :: "rat \<Rightarrow> string"
  object_hash :: "pyval \<Rightarrow> int"
  tuple_hash :: "int list \<Rightarrow> int"
  dictcomp_key_first :: bool

text \<open>
  The effects of the module: reading the clock (\<open>time.time()\<close>), drawing a fresh id
  (\<open>uuid.uuid1()\<close>) and logging a warning. The world holds what the clock and the id
  generator answer at their n-th call, how often each was called, and the warnings logged.
\<close>

record world =
  time_source :: "nat \<Rightarrow> rat"
  time_calls :: nat
  uuid_source :: "nat \<Rightarrow> string"
  uuid_calls :: nat
  warnings :: "string list"

definition time_time :: "world \<Rightarrow> pyval \<times> world" where
  "time_time w = (PFloat (time_source w (time_calls w)), w\<lparr>time_calls := Suc (time_calls w)\<rparr>)"

definition str_uuid1 :: "world \<Rightarrow> pyval \<times> world" where
  "str_uuid1 w = (PStr (uuid_source w (uuid_calls w)), w\<lparr>uuid_calls := Suc (uuid_calls w)\<rparr>)"

definition logger_warning :: "string \<Rightarrow> world \<Rightarrow> world" where
  "logger_warning msg w = w\<lparr>warnings := warnings w @ [msg]\<rparr>"

text \<open>The formatting of a value inside an f-string.\<close>

fun format_value :: "externals \<Rightarrow> pyval \<Rightarrow> string" where
  "format_value X (PStr s) = s"
| "format_value X PNone = ''None''"
| "format_value X v = builtin_str X v"

section \<open>Events\<close>

text \<open>
  What \<open>Event.__init__\<close> stores: \<open>self.timestamp\<close> and \<open>self._metadata\<close>. Each subclass of
  \<open>Event\<close> in the module is a constructor of \<open>event\<close>, holding these and the attributes its
  own \<open>__init__\<close> stores. \<open>Event\<close> itself is the abstract base: the module creates no
  instance of it, and it defines no \<open>__eq__\<close>, \<open>__hash__\<close> or story string.
\<close>

record base =
  timestamp :: pyval
  metadata :: pyval

datatype event =
    UserUttered base pyval pyval pyval pyval pyval pyval
      \<comment> \<open>text, intent, entities, input_channel, message_id, parse_data\<close>
  | BotUttered base pyval pyval  \<comment> \<open>text, data\<close>
  | SlotSet base pyval pyval  \<comment> \<open>key, value\<close>
  | Restarted base
  | UserUtteranceReverted base
  | AllSlotsReset base
  | ReminderScheduled base pyval pyval pyval pyval
      \<comment> \<open>action_name, trigger_date_time, kill_on_user_message, name\<close>
  | ReminderCancelled base pyval  \<comment> \<open>action_name\<close>
  | ActionReverted base
  | StoryExported base pyval  \<comment> \<open>path\<close>
  | FollowupAction base pyval  \<comment> \<open>action_name\<close>
  | ConversationPaused base
  | ConversationResumed base
  | ActionExecuted base pyval pyval pyval pyval
      \<comment> \<open>action_name, policy, confidence, unpredictable\<close>
  | AgentUttered base pyval pyval  \<comment> \<open>text, data\<close>
  | Form base pyval  \<comment> \<open>name\<close>
  | FormValidation base pyval  \<comment> \<open>validate\<close>
  | ActionExecutionRejected base pyval pyval pyval  \<comment> \<open>action_name, policy, confidence\<close>

fun base_of :: "event \<Rightarrow> base" where
  "base_of (UserUttered b _ _ _ _ _ _) = b"
| "base_of (BotUttered b _ _) = b"
| "base_of (SlotSet b _ _) = b"
| "base_of (Restarted b) = b"
| "base_of (UserUtteranceReverted b) = b"
| "base_of (AllSlotsReset b) = b"
| "base_of (ReminderScheduled b _ _ _ _) = b"
| "base_of (ReminderCancelled b _) = b"
| "base_of (ActionReverted b) = b"
| "base_of (StoryExported b _) = b"
| "base_of (FollowupAction b _) = b"
| "base_of (ConversationPaused b) = b"
| "base_of (ConversationResumed b) = b"
| "base_of (ActionExecuted b _ _ _ _) = b"
| "base_of (AgentUttered b _ _) = b"
| "base_of (Form b _) = b"
| "base_of (FormValidation b _) = b"
| "base_of (ActionExecutionRejected b _ _ _) = b"

subsection \<open>Construction\<close>

text \<open>
  \<open>Event.__init__\<close>: \<open>self.timestamp = timestamp or time.time()\<close> and
  \<open>self._metadata = metadata or {}\<close>. The clock is read only when the timestamp given is
  falsy.
\<close>

definition Event_init :: "pyval \<Rightarrow> pyval \<Rightarrow> world \<Rightarrow> base \<times> world" where
  "Event_init ts md w =
     (let (t, w') = (if truthy ts then (ts, w) else time_time w)
      in (\<lparr>timestamp = t, metadata = py_or md (PDict [])\<rparr>, w'))"

text \<open>\<open>UserUttered.__init__(text, intent, entities, parse_data, timestamp, input_channel,
  message_id, metadata)\<close>. The parse data given is kept when truthy, and is otherwise built
  from the attributes just stored.\<close>

definition new_UserUttered ::
  "pyval \<Rightarrow> pyval \<Rightarrow> pyval \<Rightarrow> pyval \<Rightarrow> pyval \<Rightarrow> pyval \<Rightarrow> pyval \<Rightarrow> pyval \<Rightarrow> world
     \<Rightarrow> event \<times> world" where
  "new_UserUttered text intent entities parse_data ts input_channel message_id md w =
     (let intent' = (if truthy intent then intent else PDict []);
          entities' = (if truthy entities then entities else PList []);
          (b, w') = Event_init ts md w;
          parse_data' =
            (if truthy parse_data then parse_data
             else PDict [(''intent'', intent'), (''entities'', entities'), (''text'', text),
                         (''message_id'', message_id), (''metadata'', metadata b)])
      in (UserUttered b text intent' entities' input_channel message_id parse_data', w'))"

text \<open>\<open>BotUttered.__init__(text, data, metadata, timestamp)\<close>.\<close>

definition new_BotUttered :: "pyval \<Rightarrow> pyval \<Rightarrow> pyval \<Rightarrow> pyval \<Rightarrow> world \<Rightarrow> event \<times> world" where
  "new_BotUttered text data md ts w =
     (let (b, w') = Event_init ts md w in (BotUttered b text (py_or data (PDict [])), w'))"

text \<open>\<open>SlotSet.__init__(key, value, timestamp, metadata)\<close>.\<close>

definition new_SlotSet :: "pyval \<Rightarrow> pyval \<Rightarrow> pyval \<Rightarrow> pyval \<Rightarrow> world \<Rightarrow> event \<times> world" where
  "new_SlotSet key val ts md w =
     (let (b, w') = Event_init ts md w in (SlotSet b key val, w'))"

text \<open>The classes with no \<open>__init__\<close> of their own take \<open>(timestamp, metadata)\<close>.\<close>

definition new_Restarted :: "pyval \<Rightarrow> pyval \<Rightarrow> world \<Rightarrow> event \<times> world" where
  "new_Restarted ts md w = (let (b, w') = Event_init ts md w in (Restarted b, w'))"

definition new_UserUtteranceReverted :: "pyval \<Rightarrow> pyval \<Rightarrow> world \<Rightarrow> event \<times> world" where
  "new_UserUtteranceReverted ts md w =
     (let (b, w') = Event_init ts md w in (UserUtteranceReverted b, w'))"

definition new_AllSlotsReset :: "pyval \<Rightarrow> pyval \<Rightarrow> world \<Rightarrow> event \<times> world" where
  "new_AllSlotsReset ts md w = (let (b, w') = Event_init ts md w in (AllSlotsReset b, w'))"

definition new_ActionReverted :: "pyval \<Rightarrow> pyval \<Rightarrow> world \<Rightarrow> event \<times> world" where
  "new_ActionReverted ts md w = (let (b, w') = Event_init ts md w in (ActionReverted b, w'))"

definition new_ConversationPaused :: "pyval \<Rightarrow> pyval \<Rightarrow> world \<Rightarrow> event \<times> world" where
  "new_ConversationPaused ts md w =
     (let (b, w') = Event_init ts md w in (ConversationPaused b, w'))"

definition new_ConversationResumed :: "pyval \<Rightarrow> pyval \<Rightarrow> world \<Rightarrow> event \<times> world" where
  "new_ConversationResumed ts md w =
     (let (b, w') = Event_init ts md w in (ConversationResumed b, w'))"

text \<open>\<open>ReminderScheduled.__init__(action_name, trigger_date_time, name,
  kill_on_user_message, timestamp, metadata)\<close>: a fresh id is drawn when the name is
  \<open>None\<close>, before the timestamp is set.\<close>

definition new_ReminderScheduled ::
  "pyval \<Rightarrow> pyval \<Rightarrow> pyval \<Rightarrow> pyval \<Rightarrow> pyval \<Rightarrow> pyval \<Rightarrow> world \<Rightarrow> event \<times> world" where
  "new_ReminderScheduled action_name trigger_date_time name kill_on_user_message ts md w =
     (let (name', w1) = (if name \<noteq> PNone then (name, w) else str_uuid1 w);
          (b, w2) = Event_init ts md w1
      in (ReminderScheduled b action_name trigger_date_time kill_on_user_message name', w2))"

text \<open>\<open>ReminderCancelled.__init__(action_name, timestamp, metadata)\<close>.\<close>

definition new_ReminderCancelled :: "pyval \<Rightarrow> pyval \<Rightarrow> pyval \<Rightarrow> world \<Rightarrow> event \<times> world" where
  "new_ReminderCancelled action_name ts md w =
     (let (b, w') = Event_init ts md w in (ReminderCancelled b action_name, w'))"

text \<open>\<open>StoryExported.__init__(path, timestamp, metadata)\<close>.\<close>

definition new_StoryExported :: "pyval \<Rightarrow> pyval \<Rightarrow> pyval \<Rightarrow> world \<Rightarrow> event \<times> world" where
  "new_StoryExported path ts md w =
     (let (b, w') = Event_init ts md w in (StoryExported b path, w'))"

text \<open>\<open>FollowupAction.__init__(name, timestamp, metadata)\<close>.\<close>

definition new_FollowupAction :: "pyval \<Rightarrow> pyval \<Rightarrow> pyval \<Rightarrow> world \<Rightarrow> event \<times> world" where
  "new_FollowupAction name ts md w =
     (let (b, w') = Event_init ts md w in (FollowupAction b name, w'))"

text \<open>\<open>ActionExecuted.__init__(action_name, policy, confidence, timestamp, metadata)\<close>.\<close>

definition new_ActionExecuted ::
  "pyval \<Rightarrow> pyval \<Rightarrow> pyval \<Rightarrow> pyval \<Rightarrow> pyval \<Rightarrow> world \<Rightarrow> event \<times> world" where
  "new_ActionExecuted action_name policy confidence ts md w =
     (let (b, w') = Event_init ts md w
      in (ActionExecuted b action_name policy confidence (PBool False), w'))"

text \<open>\<open>AgentUttered.__init__(text, data, timestamp, metadata)\<close>.\<close>

definition new_AgentUttered :: "pyval \<Rightarrow> pyval \<Rightarrow> pyval \<Rightarrow> pyval \<Rightarrow> world \<Rightarrow> event \<times> world" where
  "new_AgentUttered text data ts md w =
     (let (b, w') = Event_init ts md w in (AgentUttered b text data, w'))"

text \<open>\<open>Form.__init__(name, timestamp, metadata)\<close>.\<close>

definition new_Form :: "pyval \<Rightarrow> pyval \<Rightarrow> pyval \<Rightarrow> world \<Rightarrow> event \<times> world" where
  "new_Form name ts md w = (let (b, w') = Event_init ts md w in (Form b name, w'))"

text \<open>\<open>FormValidation.__init__(validate, timestamp, metadata)\<close>.\<close>

definition new_FormValidation :: "pyval \<Rightarrow> pyval \<Rightarrow> pyval \<Rightarrow> world \<Rightarrow> event \<times> world" where
  "new_FormValidation validate ts md w =
     (let (b, w') = Event_init ts md w in (FormValidation b validate, w'))"

text \<open>\<open>ActionExecutionRejected.__init__(action_name, policy, confidence, timestamp,
  metadata)\<close>.\<close>

definition new_ActionExecutionRejected ::
  "pyval \<Rightarrow> pyval \<Rightarrow> pyval \<Rightarrow> pyval \<Rightarrow> pyval \<Rightarrow> world \<Rightarrow> event \<times> world" where
  "new_ActionExecutionRejected action_name policy confidence ts md w =
     (let (b, w') = Event_init ts md w
      in (ActionExecutionRejected b action_name policy confidence, w'))"

section \<open>The registry of classes\<close>

datatype event_class =
    UserUttered_cls
  | BotUttered_cls
  | SlotSet_cls
  | Restarted_cls
  | UserUtteranceReverted_cls
  | AllSlotsReset_cls
  | ReminderScheduled_cls
  | ReminderCancelled_cls
  | ActionReverted_cls
  | StoryExported_cls
  | FollowupAction_cls
  | ConversationPaused_cls
  | ConversationResumed_cls
  | ActionExecuted_cls
  | AgentUttered_cls
  | Form_cls
  | FormValidation_cls
  | ActionExecutionRejected_cls

fun type_name :: "event_class \<Rightarrow> string" where
  "type_name UserUttered_cls = ''user''"
| "type_name BotUttered_cls = ''bot''"
| "type_name SlotSet_cls = ''slot''"
| "type_name Restarted_cls = ''restart''"
| "type_name UserUtteranceReverted_cls = ''rewind''"
| "type_name AllSlotsReset_cls = ''reset_slots''"
| "type_name ReminderScheduled_cls = ''reminder''"
| "type_name ReminderCancelled_cls = ''cancel_reminder''"
| "type_name ActionReverted_cls = ''undo''"
| "type_name StoryExported_cls = ''export''"
| "type_name FollowupAction_cls = ''followup''"
| "type_name ConversationPaused_cls = ''pause''"
| "type_name ConversationResumed_cls = ''resume''"
| "type_name ActionExecuted_cls = ''action''"
| "type_name AgentUttered_cls = ''agent''"
| "type_name Form_cls = ''form''"
| "type_name FormValidation_cls = ''form_validation''"
| "type_name ActionExecutionRejected_cls = ''action_execution_rejected''"

fun class_of :: "event \<Rightarrow> event_class" where
  "class_of (UserUttered _ _ _ _ _ _ _) = UserUttered_cls"
| "class_of (BotUttered _ _ _) = BotUttered_cls"
| "class_of (SlotSet _ _ _) = SlotSet_cls"
| "class_of (Restarted _) = Restarted_cls"
| "class_of (UserUtteranceReverted _) = UserUtteranceReverted_cls"
| "class_of (AllSlotsReset _) = AllSlotsReset_cls"
| "class_of (ReminderScheduled _ _ _ _ _) = ReminderScheduled_cls"
| "class_of (ReminderCancelled _ _) = ReminderCancelled_cls"
| "class_of (ActionReverted _) = ActionReverted_cls"
| "class_of (StoryExported _ _) = StoryExported_cls"
| "class_of (FollowupAction _ _) = FollowupAction_cls"
| "class_of (ConversationPaused _) = ConversationPaused_cls"
| "class_of (ConversationResumed _) = ConversationResumed_cls"
| "class_of (ActionExecuted _ _ _ _ _) = ActionExecuted_cls"
| "class_of (AgentUttered _ _ _) = AgentUttered_cls"
| "class_of (Form _ _) = Form_cls"
| "class_of (FormValidation _ _) = FormValidation_cls"
| "class_of (ActionExecutionRejected _ _ _ _) = ActionExecutionRejected_cls"

text \<open>
  Modelled from the spec: \<open>rasa.core.utils.all_subclasses\<close> is not part of the module. It
  gives every class derived from its argument; here the subclasses of \<open>Event\<close> that the
  module defines (the variant catalogue of the specification), in the order of their
  definition.
\<close>

definition all_subclasses_Event :: "event_class list" where
  "all_subclasses_Event =
     [UserUttered_cls, BotUttered_cls, SlotSet_cls, Restarted_cls, UserUtteranceReverted_cls,
      AllSlotsReset_cls, ReminderScheduled_cls, ReminderCancelled_cls, ActionReverted_cls,
      StoryExported_cls, FollowupAction_cls, ConversationPaused_cls, ConversationResumed_cls,
      ActionExecuted_cls, AgentUttered_cls, Form_cls, FormValidation_cls,
      ActionExecutionRejected_cls]"

text \<open>
  \<open>Event.resolve_by_type(type_name, default)\<close>: the first subclass whose \<open>type_name\<close>
  equals the name (a str equals only a str of the same characters); then \<open>None\<close> for
  \<open>"topic"\<close>, whatever the default; then the default; then a \<open>ValueError\<close>.
\<close>

definition resolve_by_type ::
  "externals \<Rightarrow> pyval \<Rightarrow> event_class option \<Rightarrow> error + event_class option" where
  "resolve_by_type X name dflt =
     (case find (\<lambda>cls. PStr (type_name cls) = name) all_subclasses_Event of
        Some cls \<Rightarrow> Inr (Some cls)
      | None \<Rightarrow>
          if name = PStr ''topic'' then Inr None
          else (case dflt of
                  Some d \<Rightarrow> Inr (Some d)
                | None \<Rightarrow>
                    Inl (ValueError (''Unknown event name '' @ [CHR 0x27] @ format_value X name
                                     @ [CHR 0x27] @ ''.''))))"

section \<open>Decoding\<close>

text \<open>\<open>cls(a, b)\<close>: a call of the class with two positional arguments, as
  \<open>Event._from_story_string\<close> makes it. The arguments land on the first two parameters of
  the class's \<open>__init__\<close>, the others take their defaults.\<close>

fun call_cls :: "event_class \<Rightarrow> pyval \<Rightarrow> pyval \<Rightarrow> world \<Rightarrow> event \<times> world" where
  "call_cls UserUttered_cls a b = new_UserUttered a b PNone PNone PNone PNone PNone PNone"
| "call_cls BotUttered_cls a b = new_BotUttered a b PNone PNone"
| "call_cls SlotSet_cls a b = new_SlotSet a b PNone PNone"
| "call_cls Restarted_cls a b = new_Restarted a b"
| "call_cls UserUtteranceReverted_cls a b = new_UserUtteranceReverted a b"
| "call_cls AllSlotsReset_cls a b = new_AllSlotsReset a b"
| "call_cls ReminderScheduled_cls a b = new_ReminderScheduled a b PNone (PBool True) PNone PNone"
| "call_cls ReminderCancelled_cls a b = new_ReminderCancelled a b PNone"
| "call_cls ActionReverted_cls a b = new_ActionReverted a b"
| "call_cls StoryExported_cls a b = new_StoryExported a b PNone"
| "call_cls FollowupAction_cls a b = new_FollowupAction a b PNone"
| "call_cls ConversationPaused_cls a b = new_ConversationPaused a b"
| "call_cls ConversationResumed_cls a b = new_ConversationResumed a b"
| "call_cls ActionExecuted_cls a b = new_ActionExecuted a b PNone PNone PNone"
| "call_cls AgentUttered_cls a b = new_AgentUttered a b PNone PNone"
| "call_cls Form_cls a b = new_Form a b PNone"
| "call_cls FormValidation_cls a b = new_FormValidation a b PNone"
| "call_cls ActionExecutionRejected_cls a b = new_ActionExecutionRejected a b PNone PNone PNone"

text \<open>A computation that may raise, in a world it may change.\<close>

type_synonym 'a result = "(error + 'a) \<times> world"

definition returns :: "'a \<times> world \<Rightarrow> 'a result" where
  "returns r = (Inr (fst r), snd r)"

text \<open>\<open>try: ... except KeyError as e: raise ValueError(f"<msg> {e}")\<close>. A \<open>KeyError\<close>
  holds the text \<open>str(e)\<close> gives; any other error passes through.\<close>

definition except_KeyError :: "string \<Rightarrow> 'a result \<Rightarrow> 'a result" where
  "except_KeyError msg r =
     (case r of
        (Inl (KeyError k), w) \<Rightarrow> (Inl (ValueError (msg @ '' '' @ k)), w)
      | _ \<Rightarrow> r)"

text \<open>\<open>Event._from_story_string\<close>, inherited by every class that does not define its
  own.\<close>

definition Event_from_story_string ::
  "event_class \<Rightarrow> pydict \<Rightarrow> world \<Rightarrow> event list option result" where
  "Event_from_story_string cls parameters w =
     (let (e, w') = call_cls cls (dict_get parameters ''timestamp'') (dict_get parameters ''metadata'') w
      in (Inr (Some [e]), w'))"

text \<open>\<open>UserUttered._from_parse_data\<close>: \<open>parse_data.get\<close> raises an \<open>AttributeError\<close> when
  the parse data is no dict.\<close>

definition UserUttered_from_parse_data ::
  "pyval \<Rightarrow> pyval \<Rightarrow> pyval \<Rightarrow> pyval \<Rightarrow> pyval \<Rightarrow> pyval \<Rightarrow> world \<Rightarrow> event result" where
  "UserUttered_from_parse_data text parse_data ts input_channel message_id md w =
     (case parse_data of
        PDict pd \<Rightarrow>
          returns (new_UserUttered text (dict_get pd ''intent'')
                     (dict_get_default pd ''entities'' (PList [])) parse_data ts input_channel
                     message_id md w)
      | _ \<Rightarrow> (Inl (no_attribute parse_data ''get''), w))"

definition UserUttered_from_story_string :: "pydict \<Rightarrow> world \<Rightarrow> event list option result" where
  "UserUttered_from_story_string parameters w =
     except_KeyError ''Failed to parse bot uttered event.''
       (case UserUttered_from_parse_data (dict_get parameters ''text'')
               (dict_get parameters ''parse_data'') (dict_get parameters ''timestamp'')
               (dict_get parameters ''input_channel'') (dict_get parameters ''message_id'')
               (dict_get parameters ''metadata'') w of
          (Inl err, w') \<Rightarrow> (Inl err, w')
        | (Inr e, w') \<Rightarrow> (Inr (Some [e]), w'))"

text \<open>\<open>SlotSet._from_story_string\<close>: one event for each item of the parameters, in their
  order; \<open>None\<close> when there is none.\<close>

fun SlotSet_slots :: "pydict \<Rightarrow> world \<Rightarrow> event list \<times> world" where
  "SlotSet_slots [] w = ([], w)"
| "SlotSet_slots ((slot_key, slot_val) # items) w =
     (let (e, w1) = new_SlotSet (PStr slot_key) slot_val PNone PNone w;
          (es, w2) = SlotSet_slots items w1
      in (e # es, w2))"

definition SlotSet_from_story_string :: "pydict \<Rightarrow> world \<Rightarrow> event list option result" where
  "SlotSet_from_story_string parameters w =
     (let (slots, w') = SlotSet_slots parameters w
      in if slots \<noteq> [] then (Inr (Some slots), w') else (Inr None, w'))"

text \<open>\<open>ReminderScheduled._from_story_string\<close>: \<open>dateutil\<close>'s \<open>parser.parse\<close> raises a
  \<open>TypeError\<close> on what is no str, and whatever the library decides on a str.\<close>

definition dateutil_parse :: "externals \<Rightarrow> pyval \<Rightarrow> error + pyval" where
  "dateutil_parse X v =
     (case v of
        PStr s \<Rightarrow> (case parser_parse X s of Inl err \<Rightarrow> Inl err | Inr d \<Rightarrow> Inr (PDatetime d))
      | _ \<Rightarrow> Inl (TypeError (''Parser must be a string or character stream, not ''
                            @ class_name v)))"

definition ReminderScheduled_from_story_string ::
  "externals \<Rightarrow> pydict \<Rightarrow> world \<Rightarrow> event list option result" where
  "ReminderScheduled_from_story_string X parameters w =
     (case dateutil_parse X (dict_get parameters ''date_time'') of
        Inl err \<Rightarrow> (Inl err, w)
      | Inr trigger_date_time \<Rightarrow>
          (let (e, w') = new_ReminderScheduled (dict_get parameters ''action'') trigger_date_time
                           (dict_get_default parameters ''name'' PNone)
                           (dict_get_default parameters ''kill_on_user_msg'' (PBool True))
                           (dict_get parameters ''timestamp'') (dict_get parameters ''metadata'') w
           in (Inr (Some [e]), w')))"

definition ReminderCancelled_from_story_string ::
  "pydict \<Rightarrow> world \<Rightarrow> event list option result" where
  "ReminderCancelled_from_story_string parameters w =
     (let (e, w') = new_ReminderCancelled (dict_get parameters ''action'')
                      (dict_get parameters ''timestamp'') (dict_get parameters ''metadata'') w
      in (Inr (Some [e]), w'))"

definition StoryExported_from_story_string ::
  "pydict \<Rightarrow> world \<Rightarrow> event list option result" where
  "StoryExported_from_story_string parameters w =
     (let (e, w') = new_StoryExported (dict_get parameters ''path'')
                      (dict_get parameters ''timestamp'') (dict_get parameters ''metadata'') w
      in (Inr (Some [e]), w'))"

definition FollowupAction_from_story_string ::
  "pydict \<Rightarrow> world \<Rightarrow> event list option result" where
  "FollowupAction_from_story_string parameters w =
     (let (e, w') = new_FollowupAction (dict_get parameters ''name'')
                      (dict_get parameters ''timestamp'') (dict_get parameters ''metadata'') w
      in (Inr (Some [e]), w'))"

definition ActionExecuted_from_story_string ::
  "pydict \<Rightarrow> world \<Rightarrow> event list option result" where
  "ActionExecuted_from_story_string parameters w =
     (let (e, w') = new_ActionExecuted (dict_get parameters ''name'')
                      (dict_get parameters ''policy'') (dict_get parameters ''confidence'')
                      (dict_get parameters ''timestamp'') (dict_get parameters ''metadata'') w
      in (Inr (Some [e]), w'))"

definition Form_from_story_string :: "pydict \<Rightarrow> world \<Rightarrow> event list option result" where
  "Form_from_story_string parameters w =
     (let (e, w') = new_Form (dict_get parameters ''name'')
                      (dict_get parameters ''timestamp'') (dict_get parameters ''metadata'') w
      in (Inr (Some [e]), w'))"

text \<open>\<open>cls._from_story_string(parameters)\<close>: the method the class defines, or the
  inherited one.\<close>

fun cls_from_story_string ::
  "externals \<Rightarrow> event_class \<Rightarrow> pydict \<Rightarrow> world \<Rightarrow> event list option result" where
  "cls_from_story_string X UserUttered_cls = UserUttered_from_story_string"
| "cls_from_story_string X SlotSet_cls = SlotSet_from_story_string"
| "cls_from_story_string X ReminderScheduled_cls = ReminderScheduled_from_story_string X"
| "cls_from_story_string X ReminderCancelled_cls = ReminderCancelled_from_story_string"
| "cls_from_story_string X StoryExported_cls = StoryExported_from_story_string"
| "cls_from_story_string X FollowupAction_cls = FollowupAction_from_story_string"
| "cls_from_story_string X ActionExecuted_cls = ActionExecuted_from_story_string"
| "cls_from_story_string X Form_cls = Form_from_story_string"
| "cls_from_story_string X cls = Event_from_story_string cls"

text \<open>\<open>Event._from_parameters\<close>, inherited by every class that does not define its own:
  the first event of the story decoding. \<open>len(result)\<close> raises a \<open>TypeError\<close> when the
  story decoding gave \<open>None\<close>.\<close>

definition Event_from_parameters ::
  "externals \<Rightarrow> event_class \<Rightarrow> pydict \<Rightarrow> world \<Rightarrow> event option result" where
  "Event_from_parameters X cls parameters w =
     (case cls_from_story_string X cls parameters w of
        (Inl err, w') \<Rightarrow> (Inl err, w')
      | (Inr None, w') \<Rightarrow>
          (Inl (TypeError (''object of type '' @ [CHR 0x27] @ ''NoneType'' @ [CHR 0x27]
                           @ '' has no len()'')), w')
      | (Inr (Some result), w') \<Rightarrow>
          (let w'' =
             (if length result > 1
              then logger_warning
                     (''Event from parameters called with parameters for multiple events. ''
                      @ ''This is not supported, only the first event will be returned. ''
                      @ ''Parameters: '' @ format_value X (PDict parameters)) w'
              else w')
           in (Inr (case result of [] \<Rightarrow> None | e # _ \<Rightarrow> Some e), w'')))"

definition BotUttered_from_parameters :: "pydict \<Rightarrow> world \<Rightarrow> event option result" where
  "BotUttered_from_parameters parameters w =
     except_KeyError ''Failed to parse bot uttered event.''
       (let (e, w') = new_BotUttered (dict_get parameters ''text'') (dict_get parameters ''data'')
                        (dict_get parameters ''metadata'') (dict_get parameters ''timestamp'') w
        in (Inr (Some e), w'))"

definition SlotSet_from_parameters :: "pydict \<Rightarrow> world \<Rightarrow> event option result" where
  "SlotSet_from_parameters parameters w =
     except_KeyError ''Failed to parse set slot event.''
       (let (e, w') = new_SlotSet (dict_get parameters ''name'') (dict_get parameters ''value'')
                        (dict_get parameters ''timestamp'') (dict_get parameters ''metadata'') w
        in (Inr (Some e), w'))"

definition AgentUttered_from_parameters :: "pydict \<Rightarrow> world \<Rightarrow> event option result" where
  "AgentUttered_from_parameters parameters w =
     except_KeyError ''Failed to parse agent uttered event.''
       (let (e, w') = new_AgentUttered (dict_get parameters ''text'') (dict_get parameters ''data'')
                        (dict_get parameters ''timestamp'') (dict_get parameters ''metadata'') w
        in (Inr (Some e), w'))"

definition FormValidation_from_parameters :: "pydict \<Rightarrow> world \<Rightarrow> event option result" where
  "FormValidation_from_parameters parameters w =
     (let (e, w') = new_FormValidation (dict_get parameters ''validate'')
                      (dict_get parameters ''timestamp'') (dict_get parameters ''metadata'') w
      in (Inr (Some e), w'))"

definition ActionExecutionRejected_from_parameters ::
  "pydict \<Rightarrow> world \<Rightarrow> event option result" where
  "ActionExecutionRejected_from_parameters parameters w =
     (let (e, w') = new_ActionExecutionRejected (dict_get parameters ''name'')
                      (dict_get parameters ''policy'') (dict_get parameters ''confidence'')
                      (dict_get parameters ''timestamp'') (dict_get parameters ''metadata'') w
      in (Inr (Some e), w'))"

text \<open>\<open>cls._from_parameters(parameters)\<close>.\<close>

fun cls_from_parameters ::
  "externals \<Rightarrow> event_class \<Rightarrow> pydict \<Rightarrow> world \<Rightarrow> event option result" where
  "cls_from_parameters X BotUttered_cls = BotUttered_from_parameters"
| "cls_from_parameters X SlotSet_cls = SlotSet_from_parameters"
| "cls_from_parameters X AgentUttered_cls = AgentUttered_from_parameters"
| "cls_from_parameters X FormValidation_cls = FormValidation_from_parameters"
| "cls_from_parameters X ActionExecutionRejected_cls = ActionExecutionRejected_from_parameters"
| "cls_from_parameters X cls = Event_from_parameters X cls"

text \<open>\<open>Event.from_story_string(event_name, parameters, default)\<close>.\<close>

definition from_story_string ::
  "externals \<Rightarrow> string \<Rightarrow> pydict \<Rightarrow> event_class option \<Rightarrow> world
     \<Rightarrow> event list option result" where
  "from_story_string X event_name parameters dflt w =
     (case resolve_by_type X (PStr event_name) dflt of
        Inl err \<Rightarrow> (Inl err, w)
      | Inr None \<Rightarrow> (Inr None, w)
      | Inr (Some event_class) \<Rightarrow> cls_from_story_string X event_class parameters w)"

text \<open>\<open>Event.from_parameters(parameters, default)\<close>.\<close>

definition from_parameters ::
  "externals \<Rightarrow> pydict \<Rightarrow> event_class option \<Rightarrow> world \<Rightarrow> event option result" where
  "from_parameters X parameters dflt w =
     (let event_name = dict_get parameters ''event''
      in if event_name = PNone then (Inr None, w)
         else (case resolve_by_type X event_name dflt of
                 Inl err \<Rightarrow> (Inl err, w)
               | Inr None \<Rightarrow> (Inr None, w)
               | Inr (Some event_class) \<Rightarrow> cls_from_parameters X event_class parameters w))"

text \<open>
  \<open>deserialise_events(serialized_events)\<close>: the loop over the entries, with the list
  \<open>deserialised\<close> built so far. An entry with no \<open>"event"\<close> key is passed over; an event
  (an object, always truthy) is appended; \<open>None\<close> is logged. Nothing catches what
  \<open>Event.from_parameters\<close> raises.
\<close>

definition unable_to_parse :: "externals \<Rightarrow> string" where
  "unable_to_parse X =
     ''Unable to parse event '' @ [CHR 0x27] @ format_value X PNone @ [CHR 0x27]
     @ '' while deserialising. The event will be ignored.''"

fun deserialise_loop ::
  "externals \<Rightarrow> event list \<Rightarrow> pydict list \<Rightarrow> world \<Rightarrow> event list result" where
  "deserialise_loop X deserialised [] w = (Inr deserialised, w)"
| "deserialise_loop X deserialised (e # es) w =
     (if dict_contains e ''event''
      then (case from_parameters X e None w of
              (Inl err, w') \<Rightarrow> (Inl err, w')
            | (Inr (Some event), w') \<Rightarrow> deserialise_loop X (deserialised @ [event]) es w'
            | (Inr None, w') \<Rightarrow>
                deserialise_loop X deserialised es (logger_warning (unable_to_parse X) w'))
      else deserialise_loop X deserialised es w)"

definition deserialise_events :: "externals \<Rightarrow> pydict list \<Rightarrow> world \<Rightarrow> event list result" where
  "deserialise_events X serialized_events w = deserialise_loop X [] serialized_events w"

section \<open>The dict encoding\<close>

text \<open>\<open>Event.as_dict\<close>: the tag and the timestamp, and the metadata when it is truthy.\<close>

definition Event_as_dict :: "event \<Rightarrow> pydict" where
  "Event_as_dict e =
     (let d = [(''event'', PStr (type_name (class_of e))), (''timestamp'', timestamp (base_of e))]
      in if truthy (metadata (base_of e)) then dict_set d ''metadata'' (metadata (base_of e))
         else d)"

text \<open>\<open>ReminderScheduled._data_obj\<close>: \<open>isoformat()\<close> is a method of a \<open>datetime\<close> only.\<close>

definition data_obj :: "pyval \<Rightarrow> pyval \<Rightarrow> pyval \<Rightarrow> pyval \<Rightarrow> error + pydict" where
  "data_obj action_name trigger_date_time kill_on_user_message name =
     (case trigger_date_time of
        PDatetime d \<Rightarrow>
          Inr [(''action'', action_name), (''date_time'', PStr (isoformat d)), (''name'', name),
               (''kill_on_user_msg'', kill_on_user_message)]
      | _ \<Rightarrow> Inl (no_attribute trigger_date_time ''isoformat''))"

text \<open>\<open>as_dict\<close> of each class: the record of \<open>Event.as_dict\<close>, updated with the fields
  of the class. The classes that do not define it inherit \<open>Event.as_dict\<close>.\<close>

fun as_dict :: "event \<Rightarrow> error + pydict" where
  "as_dict (UserUttered b text intent entities input_channel message_id parse_data) =
     Inr (dict_update
            (Event_as_dict (UserUttered b text intent entities input_channel message_id parse_data))
            [(''text'', text), (''parse_data'', parse_data), (''input_channel'', input_channel),
             (''message_id'', message_id), (''metadata'', metadata b)])"
| "as_dict (BotUttered b text data) =
     Inr (dict_update (Event_as_dict (BotUttered b text data))
            [(''text'', text), (''data'', data), (''metadata'', metadata b)])"
| "as_dict (SlotSet b key val) =
     Inr (dict_update (Event_as_dict (SlotSet b key val)) [(''name'', key), (''value'', val)])"
| "as_dict (ReminderScheduled b action_name trigger_date_time kill_on_user_message name) =
     (case data_obj action_name trigger_date_time kill_on_user_message name of
        Inl err \<Rightarrow> Inl err
      | Inr obj \<Rightarrow>
          Inr (dict_update
                 (Event_as_dict
                    (ReminderScheduled b action_name trigger_date_time kill_on_user_message name))
                 obj))"
| "as_dict (FollowupAction b action_name) =
     Inr (dict_update (Event_as_dict (FollowupAction b action_name)) [(''name'', action_name)])"
| "as_dict (ActionExecuted b action_name policy confidence unpredictable) =
     Inr (dict_update (Event_as_dict (ActionExecuted b action_name policy confidence unpredictable))
            [(''name'', action_name), (''policy'', policy), (''confidence'', confidence)])"
| "as_dict (AgentUttered b text data) =
     Inr (dict_update (Event_as_dict (AgentUttered b text data))
            [(''text'', text), (''data'', data)])"
| "as_dict (Form b name) =
     Inr (dict_update (Event_as_dict (Form b name)) [(''name'', name)])"
| "as_dict (FormValidation b validate) =
     Inr (dict_update (Event_as_dict (FormValidation b validate)) [(''validate'', validate)])"
| "as_dict (ActionExecutionRejected b action_name policy confidence) =
     Inr (dict_update (Event_as_dict (ActionExecutionRejected b action_name policy confidence))
            [(''name'', action_name), (''policy'', policy), (''confidence'', confidence)])"
| "as_dict e = Inr (Event_as_dict e)"

section \<open>Equality and hashing\<close>

text \<open>
  \<open>a == b\<close> on values. Bools, ints and floats compare by the number they denote; lists
  compare item by item; dicts are equal when they have as many items and every item of
  the one has an equal value under the same key in the other; anything else equals only
  its like.
\<close>

fun number_of :: "pyval \<Rightarrow> rat option" where
  "number_of (PBool b) = Some (if b then 1 else 0)"
| "number_of (PInt n) = Some (of_int n)"
| "number_of (PFloat r) = Some r"
| "number_of _ = None"

fun py_eq :: "pyval \<Rightarrow> pyval \<Rightarrow> bool"
  and py_eq_list :: "pyval list \<Rightarrow> pyval list \<Rightarrow> bool"
  and py_eq_items :: "(string \<times> pyval) list \<Rightarrow> (string \<times> pyval) list \<Rightarrow> bool" where
  "py_eq (PList xs) (PList ys) = py_eq_list xs ys"
| "py_eq (PDict a) (PDict b) = (length a = length b \<and> py_eq_items a b)"
| "py_eq a b =
     (case (number_of a, number_of b) of
        (Some x, Some y) \<Rightarrow> x = y
      | (None, None) \<Rightarrow> a = b
      | _ \<Rightarrow> False)"
| "py_eq_list [] [] = True"
| "py_eq_list (x # xs) (y # ys) = (py_eq x y \<and> py_eq_list xs ys)"
| "py_eq_list _ _ = False"
| "py_eq_items [] b = True"
| "py_eq_items ((k, v) # a) b =
     ((case map_of b k of None \<Rightarrow> False | Some v' \<Rightarrow> py_eq v v') \<and> py_eq_items a b)"

text \<open>\<open>x.get("name")\<close> on the intent, \<open>for ent in entities\<close>, and
  \<open>utils.remove_none_values\<close>.\<close>

definition intent_name :: "pyval \<Rightarrow> error + pyval" where
  "intent_name intent =
     (case intent of PDict d \<Rightarrow> Inr (dict_get d ''name'') | _ \<Rightarrow> Inl (no_attribute intent ''get''))"

definition py_iter :: "pyval \<Rightarrow> error + pyval list" where
  "py_iter v =
     (case v of
        PList xs \<Rightarrow> Inr xs
      | PStr s \<Rightarrow> Inr (map (\<lambda>c. PStr [c]) s)
      | PDict d \<Rightarrow> Inr (map (\<lambda>(k, _). PStr k) d)
      | _ \<Rightarrow> Inl (TypeError ([CHR 0x27] @ tp_name v @ [CHR 0x27]
                              @ '' object is not iterable'')))"

text \<open>
  Modelled from the spec: \<open>rasa.core.utils.remove_none_values\<close> is not part of the module.
  The identity of a bot utterance is its data and metadata "minus null-valued keys": the
  dict without the items whose value is \<open>None\<close>, through \<open>.items()\<close>.
\<close>

definition remove_none_values :: "pyval \<Rightarrow> error + pyval" where
  "remove_none_values obj =
     (case obj of
        PDict d \<Rightarrow> Inr (PDict (filter (\<lambda>(k, v). v \<noteq> PNone) d))
      | _ \<Rightarrow> Inl (no_attribute obj ''items''))"

definition UserUttered_members :: "externals \<Rightarrow> pyval \<Rightarrow> pyval \<Rightarrow> pyval
    \<Rightarrow> error + (pyval \<times> pyval \<times> string list)" where
  "UserUttered_members X text intent entities =
     (case intent_name intent of
        Inl err \<Rightarrow> Inl err
      | Inr name \<Rightarrow>
          (case py_iter entities of
             Inl err \<Rightarrow> Inl err
           | Inr ents \<Rightarrow> Inr (text, name, map (jsonpickle_encode X) ents)))"

definition BotUttered_members :: "externals \<Rightarrow> pyval \<Rightarrow> pyval \<Rightarrow> pyval
    \<Rightarrow> error + (pyval \<times> string \<times> string)" where
  "BotUttered_members X text data md =
     (case remove_none_values data of
        Inl err \<Rightarrow> Inl err
      | Inr data_no_nones \<Rightarrow>
          (case remove_none_values md of
             Inl err \<Rightarrow> Inl err
           | Inr meta_no_nones \<Rightarrow>
               Inr (text, jsonpickle_encode X data_no_nones, jsonpickle_encode X meta_no_nones)))"

text \<open>
  \<open>self == other\<close>, by the \<open>__eq__\<close> of the class of \<open>self\<close>. \<open>isinstance(other, C)\<close> holds
  when \<open>other\<close> is of class \<open>C\<close>: no class of the module derives from another variant.
\<close>

fun event_eq :: "externals \<Rightarrow> event \<Rightarrow> event \<Rightarrow> error + bool" where
  "event_eq X (UserUttered b text intent entities input_channel message_id parse_data) other =
     (case other of
        UserUttered b' text' intent' entities' input_channel' message_id' parse_data' \<Rightarrow>
          (case UserUttered_members X text intent entities of
             Inl err \<Rightarrow> Inl err
           | Inr (t, n, ents) \<Rightarrow>
               (case UserUttered_members X text' intent' entities' of
                  Inl err \<Rightarrow> Inl err
                | Inr (t', n', ents') \<Rightarrow> Inr (py_eq t t' \<and> py_eq n n' \<and> ents = ents')))
      | _ \<Rightarrow> Inr False)"
| "event_eq X (BotUttered b text data) other =
     (case other of
        BotUttered b' text' data' \<Rightarrow>
          (case BotUttered_members X text data (metadata b) of
             Inl err \<Rightarrow> Inl err
           | Inr (t, d, m) \<Rightarrow>
               (case BotUttered_members X text' data' (metadata b') of
                  Inl err \<Rightarrow> Inl err
                | Inr (t', d', m') \<Rightarrow> Inr (py_eq t t' \<and> d = d' \<and> m = m')))
      | _ \<Rightarrow> Inr False)"
| "event_eq X (SlotSet b key val) other =
     (case other of
        SlotSet b' key' val' \<Rightarrow> Inr (py_eq key key' \<and> py_eq val val')
      | _ \<Rightarrow> Inr False)"
| "event_eq X (ReminderScheduled b action_name trigger_date_time kill_on_user_message name) other =
     (case other of
        ReminderScheduled b' action_name' trigger_date_time' kill_on_user_message' name' \<Rightarrow>
          Inr (py_eq name name')
      | _ \<Rightarrow> Inr False)"
| "event_eq X (FollowupAction b action_name) other =
     (case other of
        FollowupAction b' action_name' \<Rightarrow> Inr (py_eq action_name action_name')
      | _ \<Rightarrow> Inr False)"
| "event_eq X (ActionExecuted b action_name policy confidence unpredictable) other =
     (case other of
        ActionExecuted b' action_name' policy' confidence' unpredictable' \<Rightarrow>
          Inr (py_eq action_name action_name')
      | _ \<Rightarrow> Inr False)"
| "event_eq X (AgentUttered b text data) other =
     (case other of
        AgentUttered b' text' data' \<Rightarrow>
          Inr (py_eq text text' \<and> jsonpickle_encode X data = jsonpickle_encode X data')
      | _ \<Rightarrow> Inr False)"
| "event_eq X (Form b name) other =
     (case other of Form b' name' \<Rightarrow> Inr (py_eq name name') | _ \<Rightarrow> Inr False)"
| "event_eq X (ActionExecutionRejected b action_name policy confidence) other =
     (case other of
        ActionExecutionRejected b' action_name' policy' confidence' \<Rightarrow>
          Inr (py_eq action_name action_name')
      | _ \<Rightarrow> Inr False)"
| "event_eq X e other = Inr (class_of other = class_of e)"

text \<open>
  \<open>hash(x)\<close> on values: a bool hashes as 0 or 1, an int by its residue modulo
  \<open>2^61 - 1\<close> with its sign (and never to -1), a list or a dict is unhashable, and the
  hash of anything else is the runtime's.
\<close>

definition int_hash :: "int \<Rightarrow> int" where
  "int_hash n = (let h = sgn n * (\<bar>n\<bar> mod (2 ^ 61 - 1)) in if h = - 1 then - 2 else h)"

definition unhashable :: "pyval \<Rightarrow> error" where
  "unhashable v = TypeError (''unhashable type: '' @ [CHR 0x27] @ tp_name v @ [CHR 0x27])"

fun py_hash :: "externals \<Rightarrow> pyval \<Rightarrow> error + int" where
  "py_hash X (PBool b) = Inr (if b then 1 else 0)"
| "py_hash X (PInt n) = Inr (int_hash n)"
| "py_hash X (PList xs) = Inl (unhashable (PList xs))"
| "py_hash X (PDict d) = Inl (unhashable (PDict d))"
| "py_hash X v = Inr (object_hash X v)"

text \<open>The hash of a tuple: the hashes of its items, from left to right, combined.\<close>

fun py_hash_items :: "externals \<Rightarrow> pyval list \<Rightarrow> error + int list" where
  "py_hash_items X [] = Inr []"
| "py_hash_items X (v # vs) =
     (case py_hash X v of
        Inl err \<Rightarrow> Inl err
      | Inr h \<Rightarrow> (case py_hash_items X vs of Inl err \<Rightarrow> Inl err | Inr hs \<Rightarrow> Inr (h # hs)))"

definition py_hash_tuple :: "externals \<Rightarrow> pyval list \<Rightarrow> error + int" where
  "py_hash_tuple X vs =
     (case py_hash_items X vs of Inl err \<Rightarrow> Inl err | Inr hs \<Rightarrow> Inr (tuple_hash X hs))"

text \<open>\<open>hash(self)\<close>, by the \<open>__hash__\<close> of the class.\<close>

fun event_hash :: "externals \<Rightarrow> event \<Rightarrow> error + int" where
  "event_hash X (UserUttered b text intent entities input_channel message_id parse_data) =
     (case intent_name intent of
        Inl err \<Rightarrow> Inl err
      | Inr name \<Rightarrow> py_hash_tuple X [text, name, PStr (jsonpickle_encode X entities)])"
| "event_hash X (BotUttered b text data) =
     (case BotUttered_members X text data (metadata b) of
        Inl err \<Rightarrow> Inl err
      | Inr (t, d, m) \<Rightarrow> py_hash_tuple X [t, PStr d, PStr m])"
| "event_hash X (SlotSet b key val) = py_hash_tuple X [key, PStr (jsonpickle_encode X val)]"
| "event_hash X (Restarted b) = py_hash X (PInt 32143124312)"
| "event_hash X (UserUtteranceReverted b) = py_hash X (PInt 32143124315)"
| "event_hash X (AllSlotsReset b) = py_hash X (PInt 32143124316)"
| "event_hash X (ReminderScheduled b action_name trigger_date_time kill_on_user_message name) =
     (case trigger_date_time of
        PDatetime d \<Rightarrow>
          py_hash_tuple X [action_name, PStr (isoformat d), kill_on_user_message, name]
      | _ \<Rightarrow> Inl (no_attribute trigger_date_time ''isoformat''))"
| "event_hash X (ReminderCancelled b action_name) = py_hash X action_name"
| "event_hash X (ActionReverted b) = py_hash X (PInt 32143124318)"
| "event_hash X (StoryExported b path) = py_hash X (PInt 32143124319)"
| "event_hash X (FollowupAction b action_name) = py_hash X action_name"
| "event_hash X (ConversationPaused b) = py_hash X (PInt 32143124313)"
| "event_hash X (ConversationResumed b) = py_hash X (PInt 32143124314)"
| "event_hash X (ActionExecuted b action_name policy confidence unpredictable) =
     py_hash X action_name"
| "event_hash X (AgentUttered b text data) =
     py_hash_tuple X [text, PStr (jsonpickle_encode X data)]"
| "event_hash X (Form b name) = py_hash X name"
| "event_hash X (FormValidation b validate) = py_hash X validate"
| "event_hash X (ActionExecutionRejected b action_name policy confidence) =
     py_hash X action_name"

section \<open>The story encoding\<close>

subsection \<open>\<open>json.dumps\<close>\<close>

text \<open>
  \<open>json.dumps(obj, ensure_ascii=...)\<close> with the default separators. A str is written
  between double quotes; the double quote, the backslash and the control characters are
  always escaped; with \<open>ensure_ascii\<close> every character outside the range from the space
  to the tilde is escaped too, as a backslash, \<open>u\<close> and four hexadecimal digits. A \<open>datetime\<close> is not
  serializable.
\<close>

definition hex_digit :: "nat \<Rightarrow> char" where
  "hex_digit n = ''0123456789abcdef'' ! n"

definition u_escape :: "char \<Rightarrow> string" where
  "u_escape c =
     [CHR 0x5C, CHR ''u'', CHR ''0'', CHR ''0'',
      hex_digit (of_char c div 16), hex_digit (of_char c mod 16)]"

definition escape_char :: "bool \<Rightarrow> char \<Rightarrow> string" where
  "escape_char ensure_ascii c =
     (if c = CHR 0x22 then [CHR 0x5C, CHR 0x22]
      else if c = CHR 0x5C then [CHR 0x5C, CHR 0x5C]
      else if c = CHR 0x0A then [CHR 0x5C, CHR ''n'']
      else if c = CHR 0x0D then [CHR 0x5C, CHR ''r'']
      else if c = CHR 0x09 then [CHR 0x5C, CHR ''t'']
      else if c = CHR 0x08 then [CHR 0x5C, CHR ''b'']
      else if c = CHR 0x0C then [CHR 0x5C, CHR ''f'']
      else if (of_char c :: nat) < 0x20 then u_escape c
      else if ensure_ascii \<and> (of_char c :: nat) > 0x7E then u_escape c
      else [c])"

definition encode_basestring :: "bool \<Rightarrow> string \<Rightarrow> string" where
  "encode_basestring ensure_ascii s =
     [CHR 0x22] @ concat (map (escape_char ensure_ascii) s) @ [CHR 0x22]"

fun decimal :: "nat \<Rightarrow> string" where
  "decimal n = (if n < 10 then [hex_digit n] else decimal (n div 10) @ [hex_digit (n mod 10)])"

declare decimal.simps [simp del]

definition int_repr :: "int \<Rightarrow> string" where
  "int_repr n = (if n < 0 then ''-'' @ decimal (nat (- n)) else decimal (nat n))"

fun join :: "string \<Rightarrow> string list \<Rightarrow> string" where
  "join sep [] = []"
| "join sep [s] = s"
| "join sep (s # t # ss) = s @ sep @ join sep (t # ss)"

definition not_serializable :: "pyval \<Rightarrow> error" where
  "not_serializable v =
     TypeError (''Object of type '' @ class_name v @ '' is not JSON serializable'')"

fun json_dumps :: "externals \<Rightarrow> bool \<Rightarrow> pyval \<Rightarrow> error + string"
  and json_dumps_list :: "externals \<Rightarrow> bool \<Rightarrow> pyval list \<Rightarrow> error + string list"
  and json_dumps_items :: "externals \<Rightarrow> bool \<Rightarrow> (string \<times> pyval) list \<Rightarrow> error + string list"
  where
  "json_dumps X ea PNone = Inr ''null''"
| "json_dumps X ea (PBool b) = Inr (if b then ''true'' else ''false'')"
| "json_dumps X ea (PInt n) = Inr (int_repr n)"
| "json_dumps X ea (PFloat r) = Inr (float_repr X r)"
| "json_dumps X ea (PStr s) = Inr (encode_basestring ea s)"
| "json_dumps X ea (PList xs) =
     (case json_dumps_list X ea xs of
        Inl err \<Rightarrow> Inl err
      | Inr ss \<Rightarrow> Inr (''['' @ join '', '' ss @ '']''))"
| "json_dumps X ea (PDict d) =
     (case json_dumps_items X ea d of
        Inl err \<Rightarrow> Inl err
      | Inr ss \<Rightarrow> Inr (''{'' @ join '', '' ss @ ''}''))"
| "json_dumps X ea (PDatetime d) = Inl (not_serializable (PDatetime d))"
| "json_dumps_list X ea [] = Inr []"
| "json_dumps_list X ea (v # vs) =
     (case json_dumps X ea v of
        Inl err \<Rightarrow> Inl err
      | Inr s \<Rightarrow>
          (case json_dumps_list X ea vs of Inl err \<Rightarrow> Inl err | Inr ss \<Rightarrow> Inr (s # ss)))"
| "json_dumps_items X ea [] = Inr []"
| "json_dumps_items X ea ((k, v) # kvs) =
     (case json_dumps X ea v of
        Inl err \<Rightarrow> Inl err
      | Inr s \<Rightarrow>
          (case json_dumps_items X ea kvs of
             Inl err \<Rightarrow> Inl err
           | Inr ss \<Rightarrow> Inr ((encode_basestring ea k @ '': '' @ s) # ss)))"

subsection \<open>\<open>as_story_string\<close>\<close>

text \<open>The tag of the class, followed by the parameter object as \<open>json.dumps\<close> writes
  it.\<close>

definition tag_and_props :: "externals \<Rightarrow> bool \<Rightarrow> event_class \<Rightarrow> error + pydict \<Rightarrow> error + pyval"
  where
  "tag_and_props X ensure_ascii cls obj =
     (case obj of
        Inl err \<Rightarrow> Inl err
      | Inr d \<Rightarrow>
          (case json_dumps X ensure_ascii (PDict d) of
             Inl err \<Rightarrow> Inl err
           | Inr props \<Rightarrow> Inr (PStr (type_name cls @ props))))"

text \<open>
  \<open>ent["entity"]\<close> and \<open>ent["value"]\<close>: subscription with a str. A dict raises a
  \<open>KeyError\<close> on a key it does not have; nothing else can be subscripted with a str.
\<close>

definition py_getitem :: "pyval \<Rightarrow> string \<Rightarrow> error + pyval" where
  "py_getitem v k =
     (case v of
        PDict d \<Rightarrow>
          (case map_of d k of
             Some x \<Rightarrow> Inr x
           | None \<Rightarrow> Inl (KeyError ([CHR 0x27] @ k @ [CHR 0x27])))
      | PStr s \<Rightarrow> Inl (TypeError ''string indices must be integers'')
      | PList xs \<Rightarrow> Inl (TypeError ''list indices must be integers or slices, not str'')
      | _ \<Rightarrow> Inl (TypeError ([CHR 0x27] @ tp_name v @ [CHR 0x27]
                              @ '' object is not subscriptable'')))"

text \<open>
  \<open>{ent["entity"]: ent["value"] for ent in self.entities}\<close>: the key and the value of
  one entity, evaluated in the order of the interpreter, and the dict built from the
  entities in their order. A key that is a list or a dict is unhashable. The result is
  \<open>None\<close> (of the option) for a key that is hashable and no str: the dicts modelled here
  have str keys.
\<close>

definition entity_item :: "externals \<Rightarrow> pyval \<Rightarrow> error + (pyval \<times> pyval)" where
  "entity_item X ent =
     (if dictcomp_key_first X
      then (case py_getitem ent ''entity'' of
              Inl err \<Rightarrow> Inl err
            | Inr k \<Rightarrow>
                (case py_getitem ent ''value'' of Inl err \<Rightarrow> Inl err | Inr v \<Rightarrow> Inr (k, v)))
      else (case py_getitem ent ''value'' of
              Inl err \<Rightarrow> Inl err
            | Inr v \<Rightarrow>
                (case py_getitem ent ''entity'' of Inl err \<Rightarrow> Inl err | Inr k \<Rightarrow> Inr (k, v))))"

fun entity_dict :: "externals \<Rightarrow> pyval list \<Rightarrow> pydict \<Rightarrow> (error + pydict) option" where
  "entity_dict X [] d = Some (Inr d)"
| "entity_dict X (ent # ents) d =
     (case entity_item X ent of
        Inl err \<Rightarrow> Some (Inl err)
      | Inr (key, val) \<Rightarrow>
          (case key of
             PStr k \<Rightarrow> entity_dict X ents (dict_set d k val)
           | PList xs \<Rightarrow> Some (Inl (unhashable key))
           | PDict kvs \<Rightarrow> Some (Inl (unhashable key))
           | _ \<Rightarrow> None))"

text \<open>
  \<open>UserUttered.as_story_string()\<close>, with its default \<open>e2e=False\<close> (the other branch
  calls the markdown writer, which is not part of the module): the text when there is no
  intent; otherwise the name of the intent, formatted, followed by the dump of the
  entities when there are any. The entities are dumped before the name is read.
\<close>

definition ent_string :: "externals \<Rightarrow> pyval \<Rightarrow> (error + string) option" where
  "ent_string X entities =
     (if truthy entities
      then (case py_iter entities of
              Inl err \<Rightarrow> Some (Inl err)
            | Inr ents \<Rightarrow>
                (case entity_dict X ents [] of
                   None \<Rightarrow> None
                 | Some (Inl err) \<Rightarrow> Some (Inl err)
                 | Some (Inr d) \<Rightarrow> Some (json_dumps X False (PDict d))))
      else Some (Inr []))"

definition UserUttered_as_story_string ::
  "externals \<Rightarrow> pyval \<Rightarrow> pyval \<Rightarrow> pyval \<Rightarrow> (error + pyval) option" where
  "UserUttered_as_story_string X text intent entities =
     (if truthy intent
      then (case ent_string X entities of
              None \<Rightarrow> None
            | Some (Inl err) \<Rightarrow> Some (Inl err)
            | Some (Inr ents) \<Rightarrow>
                (case intent of
                   PDict i \<Rightarrow>
                     Some (Inr (PStr (format_value X (dict_get_default i ''name'' (PStr []))
                                      @ ents)))
                 | _ \<Rightarrow> Some (Inl (no_attribute intent ''get''))))
      else Some (Inr text))"

text \<open>
  \<open>as_story_string()\<close> of each class. The result is \<open>None\<close> (of the option) where the
  model does not follow the source: for a \<open>UserUttered\<close> with an entity under a key that is
  no str, and for a \<open>SlotSet\<close> whose key is no str (the dicts modelled here have str
  keys). \<open>SlotSet\<close> dumps \<open>{self.key: self.value}\<close> with \<open>ensure_ascii=False\<close>;
  \<open>ReminderScheduled\<close>, \<open>ReminderCancelled\<close>, \<open>FollowupAction\<close> and \<open>Form\<close> call
  \<open>json.dumps\<close> with its default, \<open>ensure_ascii=True\<close>. \<open>ActionExecuted\<close> returns the action
  name as it is, and four classes return Python's \<open>None\<close>.
\<close>

fun as_story_string :: "externals \<Rightarrow> event \<Rightarrow> (error + pyval) option" where
  "as_story_string X (UserUttered b text intent entities input_channel message_id parse_data) =
     UserUttered_as_story_string X text intent entities"
| "as_story_string X (BotUttered b text data) = Some (Inr PNone)"
| "as_story_string X (SlotSet b key val) =
     (case key of
        PStr k \<Rightarrow> Some (tag_and_props X False SlotSet_cls (Inr [(k, val)]))
      | _ \<Rightarrow> None)"
| "as_story_string X (ReminderScheduled b action_name trigger_date_time kill_on_user_message name)
     = Some (tag_and_props X True ReminderScheduled_cls
               (data_obj action_name trigger_date_time kill_on_user_message name))"
| "as_story_string X (ReminderCancelled b action_name) =
     Some (tag_and_props X True ReminderCancelled_cls (Inr [(''action'', action_name)]))"
| "as_story_string X (FollowupAction b action_name) =
     Some (tag_and_props X True FollowupAction_cls (Inr [(''name'', action_name)]))"
| "as_story_string X (ActionExecuted b action_name policy confidence unpredictable) =
     Some (Inr action_name)"
| "as_story_string X (AgentUttered b text data) = Some (Inr PNone)"
| "as_story_string X (Form b name) =
     Some (tag_and_props X True Form_cls (Inr [(''name'', name)]))"
| "as_story_string X (FormValidation b validate) = Some (Inr PNone)"
| "as_story_string X (ActionExecutionRejected b action_name policy confidence) =
     Some (Inr PNone)"
| "as_story_string X e = Some (Inr (PStr (type_name (class_of e))))"

subsection \<open>What the decoders can restore\<close>



section \<open>A concrete environment\<close>

text \<open>An environment and a world to run the module in: a clock that starts at
  1600000000 and advances by one second at every reading, ids \<open>id\<close>, \<open>idI\<close>, \<open>idII\<close>, ...,
  a date parser that accepts every str, a string hash that is the length, and
  library functions that answer with fixed values.\<close>

definition X0 :: externals where
  "X0 = \<lparr>parser_parse = (\<lambda>s. Inr (Datetime s)),
         jsonpickle_encode = (\<lambda>v. []),
         builtin_str = (\<lambda>v. []),
         float_repr = (\<lambda>r. []),
         object_hash = (\<lambda>v. case v of PStr s \<Rightarrow> int (length s) | _ \<Rightarrow> 0),
         tuple_hash = (\<lambda>hs. sum_list hs),
         dictcomp_key_first = True\<rparr>"

definition W0 :: world where
  "W0 = \<lparr>time_source = (\<lambda>n. 1600000000 + of_nat n),
         time_calls = 0,
         uuid_source = (\<lambda>n. ''id'' @ replicate n CHR ''I''),
         uuid_calls = 0,
         warnings = []\<rparr>"

section \<open>Properties\<close>

subsection \<open>Construction and decoding, step by step\<close>

lemmas dict_defs = dict_get_def dict_get_default_def dict_contains_def

lemmas new_defs = new_UserUttered_def new_BotUttered_def new_SlotSet_def new_Restarted_def
  new_UserUtteranceReverted_def new_AllSlotsReset_def new_ActionReverted_def
  new_ConversationPaused_def new_ConversationResumed_def new_ReminderScheduled_def
  new_ReminderCancelled_def new_StoryExported_def new_FollowupAction_def new_ActionExecuted_def
  new_AgentUttered_def new_Form_def new_FormValidation_def new_ActionExecutionRejected_def

lemmas story_defs = Event_from_story_string_def SlotSet_from_story_string_def
  ReminderScheduled_from_story_string_def ReminderCancelled_from_story_string_def
  StoryExported_from_story_string_def FollowupAction_from_story_string_def
  ActionExecuted_from_story_string_def Form_from_story_string_def


lemma fst_Event_init:
  "fst (Event_init ts md w) =
     \<lparr>timestamp = (if truthy ts then ts else PFloat (time_source w (time_calls w))),
      metadata = (if truthy md then md else PDict [])\<rparr>"
  by (simp add: Event_init_def time_time_def py_or_def)

lemma snd_Event_init:
  "snd (Event_init ts md w) = (if truthy ts then w else w\<lparr>time_calls := Suc (time_calls w)\<rparr>)"
  by (simp add: Event_init_def time_time_def)

lemma except_KeyError_Inr: "except_KeyError msg (Inr x, w) = (Inr x, w)"
  by (simp add: except_KeyError_def)

lemma except_KeyError_no_attribute:
  "except_KeyError msg (Inl (no_attribute v a), w) = (Inl (no_attribute v a), w)"
  by (simp add: except_KeyError_def no_attribute_def)

lemma UserUttered_from_story_string_eq:
  "UserUttered_from_story_string parameters w =
     (case dict_get parameters ''parse_data'' of
        PDict pd \<Rightarrow>
          (let r = new_UserUttered (dict_get parameters ''text'') (dict_get pd ''intent'')
                     (dict_get_default pd ''entities'' (PList [])) (PDict pd)
                     (dict_get parameters ''timestamp'') (dict_get parameters ''input_channel'')
                     (dict_get parameters ''message_id'') (dict_get parameters ''metadata'') w
           in (Inr (Some [fst r]), snd r))
      | v \<Rightarrow> (Inl (no_attribute v ''get''), w))"
  by (simp add: UserUttered_from_story_string_def UserUttered_from_parse_data_def returns_def
        except_KeyError_Inr except_KeyError_no_attribute Let_def split: pyval.splits)

lemma class_of_new [simp]:
  "class_of (fst (new_UserUttered t i e p ts c m md w)) = UserUttered_cls"
  "class_of (fst (new_BotUttered t d md ts w)) = BotUttered_cls"
  "class_of (fst (new_SlotSet k v ts md w)) = SlotSet_cls"
  "class_of (fst (new_Restarted ts md w)) = Restarted_cls"
  "class_of (fst (new_UserUtteranceReverted ts md w)) = UserUtteranceReverted_cls"
  "class_of (fst (new_AllSlotsReset ts md w)) = AllSlotsReset_cls"
  "class_of (fst (new_ReminderScheduled a d n k ts md w)) = ReminderScheduled_cls"
  "class_of (fst (new_ReminderCancelled a ts md w)) = ReminderCancelled_cls"
  "class_of (fst (new_ActionReverted ts md w)) = ActionReverted_cls"
  "class_of (fst (new_StoryExported p ts md w)) = StoryExported_cls"
  "class_of (fst (new_FollowupAction a ts md w)) = FollowupAction_cls"
  "class_of (fst (new_ConversationPaused ts md w)) = ConversationPaused_cls"
  "class_of (fst (new_ConversationResumed ts md w)) = ConversationResumed_cls"
  "class_of (fst (new_ActionExecuted a po co ts md w)) = ActionExecuted_cls"
  "class_of (fst (new_AgentUttered t d ts md w)) = AgentUttered_cls"
  "class_of (fst (new_Form n ts md w)) = Form_cls"
  "class_of (fst (new_FormValidation v ts md w)) = FormValidation_cls"
  "class_of (fst (new_ActionExecutionRejected a po co ts md w)) = ActionExecutionRejected_cls"
  by (simp_all add: new_defs split_beta Let_def)

lemma class_of_call_cls [simp]: "class_of (fst (call_cls cls a b w)) = cls"
  by (cases cls) simp_all

text \<open>Every class but \<open>SlotSet\<close> decodes story parameters to a single event of the class,
  or raises.\<close>

lemma cls_from_story_string_single:
  assumes "cls \<noteq> SlotSet_cls"
  shows "(\<exists>e w'. cls_from_story_string X cls parameters w = (Inr (Some [e]), w') \<and>
            class_of e = cls) \<or>
         (\<exists>err w'. cls_from_story_string X cls parameters w = (Inl err, w'))"
  using assms
  by (cases cls)
     (auto simp: story_defs UserUttered_from_story_string_eq split_beta Let_def
           split: pyval.splits sum.splits)




subsection \<open>Resolution of a tag\<close>

lemma find_registry_None:
  "name \<notin> PStr ` set (map type_name all_subclasses_Event) \<Longrightarrow>
   find (\<lambda>cls. PStr (type_name cls) = name) all_subclasses_Event = None"
  by (auto simp: find_None_iff)

lemma resolve_by_type_topic: "resolve_by_type X (PStr ''topic'') dflt = Inr None"
  by (simp add: resolve_by_type_def all_subclasses_Event_def)

lemma resolve_by_type_unknown:
  assumes "name \<notin> PStr ` set (map type_name all_subclasses_Event)" "name \<noteq> PStr ''topic''"
  shows "resolve_by_type X name None =
           Inl (ValueError (''Unknown event name '' @ [CHR 0x27] @ format_value X name
                            @ [CHR 0x27] @ ''.''))"
    and "resolve_by_type X name (Some cls) = Inr (Some cls)"
  using assms by (simp_all add: resolve_by_type_def find_registry_None)

lemma from_parameters_legacy:
  "dict_get parameters ''event'' = PStr ''topic'' \<Longrightarrow>
   from_parameters X parameters dflt w = (Inr None, w)"
  by (simp add: from_parameters_def resolve_by_type_topic)

lemma from_parameters_unknown:
  assumes "dict_get parameters ''event'' = name" and "name \<noteq> PNone"
    and "name \<notin> PStr ` set (map type_name all_subclasses_Event)"
    and "name \<noteq> PStr ''topic''"
  shows "from_parameters X parameters None w =
           (Inl (ValueError (''Unknown event name '' @ [CHR 0x27] @ format_value X name
                             @ [CHR 0x27] @ ''.'')), w)"
    and "from_parameters X parameters (Some cls) w = cls_from_parameters X cls parameters w"
  using assms by (simp_all add: from_parameters_def resolve_by_type_unknown)

lemma from_parameters_slot:
  "from_parameters X [(''event'', PStr ''slot''), (''name'', key), (''value'', val)] dflt w =
     (Inr (Some (SlotSet \<lparr>timestamp = PFloat (time_source w (time_calls w)), metadata = PDict []\<rparr>
                   key val)), w\<lparr>time_calls := Suc (time_calls w)\<rparr>)"
  by (simp add: from_parameters_def resolve_by_type_def all_subclasses_Event_def dict_defs
        SlotSet_from_parameters_def new_SlotSet_def split_beta fst_Event_init snd_Event_init
        except_KeyError_Inr)

subsection \<open>The legacy tag\<close>

text \<open>
  C6. Decoding a record whose \<open>"event"\<close> is the legacy tag \<open>"topic"\<close>, such as
  \<open>{"event": "topic"}\<close>, returns no event and raises no error, whatever the fallback, and
  leaves the world as it was.
\<close>

theorem from_parameters_topic:
  assumes "dict_get parameters ''event'' = PStr ''topic''"
  shows "from_parameters X parameters dflt w = (Inr None, w)"
  using assms by (rule from_parameters_legacy)

theorem from_parameters_topic_witness:
  "dict_get [(''event'', PStr ''topic'')] ''event'' = PStr ''topic'' \<and>
   from_parameters X0 [(''event'', PStr ''topic'')] None W0 = (Inr None, W0)"
  using from_parameters_topic [of "[(''event'', PStr ''topic'')]" X0 None W0]
  by (simp add: dict_defs)

subsection \<open>Unknown tags\<close>




subsection \<open>Decoding a batch\<close>

lemma deserialise_loop_unknown_tag:
  assumes "e \<in> set es" and "dict_get e ''event'' = name" and "name \<noteq> PNone"
    and "name \<notin> PStr ` set (map type_name all_subclasses_Event)"
    and "name \<noteq> PStr ''topic''"
  shows "\<exists>err w'. deserialise_loop X deserialised es w = (Inl err, w')"
  using assms(1)
proof (induction es arbitrary: deserialised w)
  case Nil
  then show ?case by simp
next
  case (Cons x xs)
  show ?case
  proof (cases "x = e")
    case True
    have "dict_contains e ''event''"
      using assms(2,3) by (auto simp: dict_defs split: option.splits)
    moreover have "\<exists>err. from_parameters X e None w = (Inl err, w)"
      using from_parameters_unknown(1) [OF assms(2-5), of X w] by simp
    ultimately show ?thesis using True by auto
  next
    case False
    with Cons.prems have "e \<in> set xs" by simp
    then show ?thesis
      using Cons.IH by (auto split: prod.splits sum.splits option.splits)
  qed
qed

subsection \<open>Missing fields\<close>

lemma SlotSet_from_parameters_eq:
  "SlotSet_from_parameters parameters w =
     (let r = new_SlotSet (dict_get parameters ''name'') (dict_get parameters ''value'')
                (dict_get parameters ''timestamp'') (dict_get parameters ''metadata'') w
      in (Inr (Some (fst r)), snd r))"
  by (simp add: SlotSet_from_parameters_def split_beta except_KeyError_Inr Let_def)

text \<open>
  C5, on the code. The handler of \<open>SlotSet._from_parameters\<close> that turns a \<open>KeyError\<close> into
  a \<open>ValueError\<close> is never entered: the fields are read with \<open>.get\<close>, which raises nothing,
  so the decoding of a slot record never raises. The record \<open>{"event": "slot"}\<close>, with
  neither name nor value, decodes to a \<open>SlotSet\<close> whose key and value are \<open>None\<close>. The
  record \<open>{"event": "reminder"}\<close>, with no date, raises the \<open>TypeError\<close> of the date parser
  as it is.
\<close>

theorem from_parameters_missing_fields:
  "from_parameters X [(''event'', PStr ''slot'')] dflt w =
     (Inr (Some (SlotSet \<lparr>timestamp = PFloat (time_source w (time_calls w)), metadata = PDict []\<rparr>
                   PNone PNone)), w\<lparr>time_calls := Suc (time_calls w)\<rparr>) \<and>
   (\<forall>parameters. \<exists>e w'. SlotSet_from_parameters parameters w = (Inr (Some e), w')) \<and>
   from_parameters X [(''event'', PStr ''reminder'')] dflt w =
     (Inl (TypeError ''Parser must be a string or character stream, not NoneType''), w)"
  by (simp add: from_parameters_def resolve_by_type_def all_subclasses_Event_def dict_defs
        SlotSet_from_parameters_eq new_SlotSet_def split_beta fst_Event_init snd_Event_init
        Event_from_parameters_def ReminderScheduled_from_story_string_def dateutil_parse_def
        Let_def)

subsection \<open>Story parameters of several slots\<close>

lemma SlotSet_slots_eq:
  "SlotSet_slots parameters w =
     (map (\<lambda>(i, (k, v)). SlotSet \<lparr>timestamp = PFloat (time_source w i), metadata = PDict []\<rparr>
                             (PStr k) v)
          (enumerate (time_calls w) parameters),
      w\<lparr>time_calls := time_calls w + length parameters\<rparr>)"
proof (induction parameters arbitrary: w)
  case Nil
  then show ?case by simp
next
  case (Cons kv kvs)
  obtain k v where kv: "kv = (k, v)" by (cases kv)
  show ?case
    unfolding kv
    by (simp add: Cons.IH new_SlotSet_def split_beta fst_Event_init snd_Event_init)
qed

text \<open>
  C7. Decoding story parameters under the tag \<open>"slot"\<close> yields one \<open>SlotSet\<close> event for each
  key of the parameters, in their order, each with the key and its value, stamped by
  successive readings of the clock (and \<open>None\<close> when there is no key). The parameters
  \<open>{"a": 1, "b": 2}\<close> yield \<open>SlotSet("a", 1)\<close> followed by \<open>SlotSet("b", 2)\<close>.
\<close>

theorem SlotSet_from_story_string_one_per_key:
  "from_story_string X ''slot'' parameters dflt w =
     (Inr (if parameters = [] then None
           else Some (map (\<lambda>(i, (k, v)).
                         SlotSet \<lparr>timestamp = PFloat (time_source w i), metadata = PDict []\<rparr>
                           (PStr k) v)
                       (enumerate (time_calls w) parameters))),
      w\<lparr>time_calls := time_calls w + length parameters\<rparr>)"
  by (cases parameters)
     (simp_all add: from_story_string_def resolve_by_type_def all_subclasses_Event_def
        SlotSet_from_story_string_def SlotSet_slots_eq)

theorem SlotSet_from_story_string_a_b:
  "from_story_string X0 ''slot'' [(''a'', PInt 1), (''b'', PInt 2)] None W0 =
     (Inr (Some [SlotSet \<lparr>timestamp = PFloat 1600000000, metadata = PDict []\<rparr> (PStr ''a'') (PInt 1),
                 SlotSet \<lparr>timestamp = PFloat 1600000001, metadata = PDict []\<rparr> (PStr ''b'') (PInt 2)]),
      W0\<lparr>time_calls := 2\<rparr>)"
  using SlotSet_from_story_string_one_per_key [of X0 "[(''a'', PInt 1), (''b'', PInt 2)]" None W0]
  by (simp add: W0_def)

subsection \<open>Equal events with different hashes\<close>

text \<open>
  C9. The equality of a \<open>ReminderCancelled\<close> and of a \<open>FormValidation\<close> checks only the
  type: the event equals exactly the events of its own class, whatever their fields. So
  any two \<open>ReminderCancelled\<close> events are equal, and the hash of each is the hash of its
  action name; any two \<open>FormValidation\<close> events are equal, and the hash of each is the
  hash of its flag. So equal events need not hash alike: \<open>FormValidation(True)\<close> and
  \<open>FormValidation(False)\<close> are equal and hash to 1 and to 0, and two \<open>ReminderCancelled\<close>
  events with str names hash alike exactly when the runtime hashes the two names alike.
\<close>

theorem equal_events_unequal_hashes:
  "event_eq X (ReminderCancelled b action_name) other =
     Inr (class_of other = ReminderCancelled_cls) \<and>
   event_eq X (FormValidation b validate) other = Inr (class_of other = FormValidation_cls) \<and>
   event_eq X (ReminderCancelled b action_name) (ReminderCancelled b' action_name') = Inr True \<and>
   event_hash X (ReminderCancelled b action_name) = py_hash X action_name \<and>
   (event_hash X (ReminderCancelled b (PStr s)) = event_hash X (ReminderCancelled b' (PStr s'))
      \<longleftrightarrow> object_hash X (PStr s) = object_hash X (PStr s')) \<and>
   event_eq X (FormValidation b validate) (FormValidation b' validate') = Inr True \<and>
   event_hash X (FormValidation b validate) = py_hash X validate \<and>
   event_eq X (FormValidation b (PBool True)) (FormValidation b' (PBool False)) = Inr True \<and>
   event_hash X (FormValidation b (PBool True)) = Inr 1 \<and>
   event_hash X (FormValidation b' (PBool False)) = Inr 0 \<and>
   event_hash X (FormValidation b (PBool True)) \<noteq> event_hash X (FormValidation b' (PBool False))"
  by simp

subsection \<open>The timestamp given to a constructor\<close>

text \<open>
  C10. Every constructor stores \<open>timestamp or time.time()\<close>: a truthy timestamp is kept,
  and a falsy one (\<open>0\<close>, \<open>0.0\<close>, \<open>None\<close>) is replaced by the reading of the clock at
  construction. So an explicit timestamp of \<open>0\<close> is not preserved, for any variant.
\<close>

theorem falsy_timestamp_replaced_by_clock:
  "(let t = (if truthy ts then ts else PFloat (time_source w (time_calls w))) in
    timestamp (base_of (fst (new_UserUttered text intent entities parse_data ts input_channel message_id md w))) = t \<and>
    timestamp (base_of (fst (new_BotUttered text data md ts w))) = t \<and>
    timestamp (base_of (fst (new_SlotSet key val ts md w))) = t \<and>
    timestamp (base_of (fst (new_Restarted ts md w))) = t \<and>
    timestamp (base_of (fst (new_UserUtteranceReverted ts md w))) = t \<and>
    timestamp (base_of (fst (new_AllSlotsReset ts md w))) = t \<and>
    timestamp (base_of (fst (new_ReminderScheduled action_name trigger_date_time name kill_on_user_message ts md w))) = t \<and>
    timestamp (base_of (fst (new_ReminderCancelled action_name ts md w))) = t \<and>
    timestamp (base_of (fst (new_ActionReverted ts md w))) = t \<and>
    timestamp (base_of (fst (new_StoryExported path ts md w))) = t \<and>
    timestamp (base_of (fst (new_FollowupAction name ts md w))) = t \<and>
    timestamp (base_of (fst (new_ConversationPaused ts md w))) = t \<and>
    timestamp (base_of (fst (new_ConversationResumed ts md w))) = t \<and>
    timestamp (base_of (fst (new_ActionExecuted action_name policy confidence ts md w))) = t \<and>
    timestamp (base_of (fst (new_AgentUttered text data ts md w))) = t \<and>
    timestamp (base_of (fst (new_Form name ts md w))) = t \<and>
    timestamp (base_of (fst (new_FormValidation validate ts md w))) = t \<and>
    timestamp (base_of (fst (new_ActionExecutionRejected action_name policy confidence ts md w))) = t)"
  by (simp add: new_defs split_beta fst_Event_init Let_def str_uuid1_def)

theorem timestamp_zero_not_preserved:
  "timestamp (base_of (fst (new_SlotSet (PStr ''a'') (PInt 1) (PInt 0) PNone W0))) = PFloat 1600000000 \<and>
   timestamp (base_of (fst (new_SlotSet (PStr ''a'') (PInt 1) (PFloat 0) PNone W0))) = PFloat 1600000000 \<and>
   timestamp (base_of (fst (new_SlotSet (PStr ''a'') (PInt 1) PNone PNone W0))) = PFloat 1600000000 \<and>
   timestamp (base_of (fst (new_SlotSet (PStr ''a'') (PInt 1) (PInt 7) PNone W0))) = PInt 7"
  using falsy_timestamp_replaced_by_clock [of "PInt 0" W0]
        falsy_timestamp_replaced_by_clock [of "PFloat 0" W0]
        falsy_timestamp_replaced_by_clock [of PNone W0]
        falsy_timestamp_replaced_by_clock [of "PInt 7" W0]
  by (simp add: Let_def W0_def)

subsection \<open>The metadata key of the dict encoding\<close>

lemma map_of_dict_set: "map_of (dict_set d k v) = (map_of d)(k \<mapsto> v)"
  by (induction d k v rule: dict_set.induct) auto

text \<open>
  C4, as the code has it. \<open>UserUttered.as_dict\<close> and \<open>BotUttered.as_dict\<close> write the
  \<open>"metadata"\<close> key themselves: a user or bot utterance constructed with no metadata
  encodes to a record that holds \<open>"metadata": {}\<close>.
\<close>

theorem as_dict_writes_empty_metadata:
  "as_dict (fst (new_UserUttered (PStr ''hi'') PNone PNone PNone PNone PNone PNone PNone W0)) =
     Inr [(''event'', PStr ''user''), (''timestamp'', PFloat 1600000000), (''text'', PStr ''hi''),
          (''parse_data'',
             PDict [(''intent'', PDict []), (''entities'', PList []), (''text'', PStr ''hi''),
                    (''message_id'', PNone), (''metadata'', PDict [])]),
          (''input_channel'', PNone), (''message_id'', PNone), (''metadata'', PDict [])] \<and>
   as_dict (fst (new_BotUttered (PStr ''hi'') PNone PNone PNone W0)) =
     Inr [(''event'', PStr ''bot''), (''timestamp'', PFloat 1600000000), (''text'', PStr ''hi''),
          (''data'', PDict []), (''metadata'', PDict [])]"
  by (simp add: new_defs split_beta fst_Event_init Let_def Event_as_dict_def W0_def py_or_def)

text \<open>
  C4, amended. For every event, \<open>as_dict\<close> holds non-empty metadata as it is under the
  \<open>"metadata"\<close> key. For an event whose metadata is empty the record has no \<open>"metadata"\<close>
  key, except for \<open>UserUttered\<close> and \<open>BotUttered\<close>, whose record always holds the key, with
  the empty metadata as its value.
\<close>

theorem as_dict_metadata:
  assumes "as_dict e = Inr d"
  shows "map_of d ''metadata'' =
           (if truthy (metadata (base_of e)) \<or> class_of e \<in> {UserUttered_cls, BotUttered_cls}
            then Some (metadata (base_of e)) else None)"
  using assms
  by (cases e)
     (auto simp: Event_as_dict_def data_obj_def map_of_dict_set Let_def split: pyval.splits)

theorem as_dict_metadata_witness:
  "as_dict (SlotSet \<lparr>timestamp = PInt 1, metadata = PDict [(''x'', PInt 3)]\<rparr> (PStr ''a'') (PInt 1)) =
     Inr [(''event'', PStr ''slot''), (''timestamp'', PInt 1),
          (''metadata'', PDict [(''x'', PInt 3)]), (''name'', PStr ''a''), (''value'', PInt 1)] \<and>
   map_of [(''event'', PStr ''slot''), (''timestamp'', PInt 1),
           (''metadata'', PDict [(''x'', PInt 3)]), (''name'', PStr ''a''), (''value'', PInt 1)]
     ''metadata'' = Some (PDict [(''x'', PInt 3)]) \<and>
   as_dict (SlotSet \<lparr>timestamp = PInt 1, metadata = PDict []\<rparr> (PStr ''a'') (PInt 1)) =
     Inr [(''event'', PStr ''slot''), (''timestamp'', PInt 1), (''name'', PStr ''a''),
          (''value'', PInt 1)] \<and>
   map_of [(''event'', PStr ''slot''), (''timestamp'', PInt 1), (''name'', PStr ''a''),
           (''value'', PInt 1)] ''metadata'' = None"
proof -
  have h1: "as_dict (SlotSet \<lparr>timestamp = PInt 1, metadata = PDict [(''x'', PInt 3)]\<rparr>
                       (PStr ''a'') (PInt 1)) =
     Inr [(''event'', PStr ''slot''), (''timestamp'', PInt 1),
          (''metadata'', PDict [(''x'', PInt 3)]), (''name'', PStr ''a''), (''value'', PInt 1)]"
    by (simp add: Event_as_dict_def)
  have h2: "as_dict (SlotSet \<lparr>timestamp = PInt 1, metadata = PDict []\<rparr> (PStr ''a'') (PInt 1)) =
     Inr [(''event'', PStr ''slot''), (''timestamp'', PInt 1), (''name'', PStr ''a''),
          (''value'', PInt 1)]"
    by (simp add: Event_as_dict_def)
  show ?thesis
    using as_dict_metadata [OF h1] as_dict_metadata [OF h2] h1 h2 by simp
qed

subsection \<open>Round trips\<close>

lemma dict_get_Cons [simp]:
  "dict_get ((k, v) # d) k' = (if k = k' then v else dict_get d k')"
  "dict_get [] k' = PNone"
  by (simp_all add: dict_defs)

lemma dict_get_default_Cons [simp]:
  "dict_get_default ((k, v) # d) k' x = (if k = k' then v else dict_get_default d k' x)"
  "dict_get_default [] k' x = x"
  by (simp_all add: dict_defs)

lemma dict_get_dict_set [simp]:
  "dict_get (dict_set d k v) k' = (if k' = k then v else dict_get d k')"
  by (simp add: dict_defs map_of_dict_set)

lemma dict_get_default_dict_set [simp]:
  "dict_get_default (dict_set d k v) k' x = (if k' = k then v else dict_get_default d k' x)"
  by (simp add: dict_defs map_of_dict_set)







lemma BotUttered_from_parameters_eq:
  "BotUttered_from_parameters parameters w =
     (let r = new_BotUttered (dict_get parameters ''text'') (dict_get parameters ''data'')
                (dict_get parameters ''metadata'') (dict_get parameters ''timestamp'') w
      in (Inr (Some (fst r)), snd r))"
  by (simp add: BotUttered_from_parameters_def split_beta except_KeyError_Inr Let_def)

lemma AgentUttered_from_parameters_eq:
  "AgentUttered_from_parameters parameters w =
     (let r = new_AgentUttered (dict_get parameters ''text'') (dict_get parameters ''data'')
                (dict_get parameters ''timestamp'') (dict_get parameters ''metadata'') w
      in (Inr (Some (fst r)), snd r))"
  by (simp add: AgentUttered_from_parameters_def split_beta except_KeyError_Inr Let_def)





































subsection \<open>Non-ASCII text in story strings\<close>

text \<open>
  C8, on the code. Only \<open>SlotSet.as_story_string\<close> passes \<open>ensure_ascii=False\<close>: the slot
  value \<open>c\<close>, \<open>e\<close> with acute accent (code point 0xE9) is written as it is. The story
  strings of \<open>FollowupAction\<close>, \<open>ReminderCancelled\<close> and \<open>ReminderScheduled\<close> write the
  same text in an action name as \<open>c\<close>, backslash, \<open>u00e9\<close>: with \<open>ensure_ascii\<close>, every
  character above the tilde is escaped, and without it every character from the space on,
  but the double quote and the backslash, is kept.
\<close>

theorem story_strings_of_non_ascii_names:
  "as_story_string X (SlotSet b (PStr ''city'') (PStr [CHR ''c'', CHR 0xE9])) =
     Some (Inr (PStr (''slot{'' @ [CHR 0x22] @ ''city'' @ [CHR 0x22] @ '': '' @ [CHR 0x22]
                      @ [CHR ''c'', CHR 0xE9] @ [CHR 0x22] @ ''}''))) \<and>
   as_story_string X (FollowupAction b (PStr [CHR ''c'', CHR 0xE9])) =
     Some (Inr (PStr (''followup{'' @ [CHR 0x22] @ ''name'' @ [CHR 0x22] @ '': '' @ [CHR 0x22]
                      @ ''c'' @ [CHR 0x5C] @ ''u00e9'' @ [CHR 0x22] @ ''}''))) \<and>
   as_story_string X (ReminderCancelled b (PStr [CHR ''c'', CHR 0xE9])) =
     Some (Inr (PStr (''cancel_reminder{'' @ [CHR 0x22] @ ''action'' @ [CHR 0x22] @ '': ''
                      @ [CHR 0x22] @ ''c'' @ [CHR 0x5C] @ ''u00e9'' @ [CHR 0x22] @ ''}''))) \<and>
   as_story_string X (ReminderScheduled b (PStr [CHR ''c'', CHR 0xE9])
                        (PDatetime (Datetime ''2020-01-01T09:00:00'')) (PBool True) (PStr ''r'')) =
     Some (Inr (PStr (''reminder{'' @ [CHR 0x22] @ ''action'' @ [CHR 0x22] @ '': '' @ [CHR 0x22]
                      @ ''c'' @ [CHR 0x5C] @ ''u00e9'' @ [CHR 0x22] @ '', ''
                      @ [CHR 0x22] @ ''date_time'' @ [CHR 0x22] @ '': '' @ [CHR 0x22]
                      @ ''2020-01-01T09:00:00'' @ [CHR 0x22] @ '', ''
                      @ [CHR 0x22] @ ''name'' @ [CHR 0x22] @ '': '' @ [CHR 0x22] @ ''r''
                      @ [CHR 0x22] @ '', ''
                      @ [CHR 0x22] @ ''kill_on_user_msg'' @ [CHR 0x22] @ '': true}''))) \<and>
   escape_char True c = (if (of_char c :: nat) > 0x7E then u_escape c else escape_char False c) \<and>
   escape_char False c =
     (if (of_char c :: nat) \<ge> 0x20 \<and> c \<noteq> CHR 0x22 \<and> c \<noteq> CHR 0x5C then [c]
      else escape_char True c)"
  by (simp add: tag_and_props_def data_obj_def encode_basestring_def escape_char_def
        u_escape_def hex_digit_def)

subsection \<open>Decoding a batch, entry by entry\<close>

lemma deserialise_loop_acc:
  "deserialise_loop X acc es w =
     (case deserialise_loop X [] es w of
        (Inl err, w') \<Rightarrow> (Inl err, w')
      | (Inr evs, w') \<Rightarrow> (Inr (acc @ evs), w'))"
proof (induction es arbitrary: acc w)
  case Nil
  then show ?case by simp
next
  case (Cons e es)
  show ?case
  proof (cases "dict_contains e ''event''")
    case False
    then show ?thesis using Cons.IH [of acc w] by simp
  next
    case True
    obtain r w1 where r: "from_parameters X e None w = (r, w1)" by (cases "from_parameters X e None w")
    show ?thesis
    proof (cases r)
      case (Inl err)
      then show ?thesis using True r by simp
    next
      case (Inr res)
      show ?thesis
      proof (cases res)
        case None
        then show ?thesis
          using True r Inr Cons.IH [of acc "logger_warning (unable_to_parse X) w1"] by simp
      next
        case (Some ev)
        have "deserialise_loop X (acc @ [ev]) es w1 =
                (case deserialise_loop X [] es w1 of
                   (Inl err, w') \<Rightarrow> (Inl err, w')
                 | (Inr evs, w') \<Rightarrow> (Inr ((acc @ [ev]) @ evs), w'))"
          by (rule Cons.IH)
        moreover have "deserialise_loop X [ev] es w1 =
                (case deserialise_loop X [] es w1 of
                   (Inl err, w') \<Rightarrow> (Inl err, w')
                 | (Inr evs, w') \<Rightarrow> (Inr ([ev] @ evs), w'))"
          by (rule Cons.IH)
        ultimately show ?thesis
          using True r Inr Some by (auto split: prod.splits sum.splits)
      qed
    qed
  qed
qed

lemma deserialise_events_Cons:
  "deserialise_events X (e # es) w =
     (if dict_contains e ''event''
      then (case from_parameters X e None w of
              (Inl err, w') \<Rightarrow> (Inl err, w')
            | (Inr None, w') \<Rightarrow>
                deserialise_events X es (logger_warning (unable_to_parse X) w')
            | (Inr (Some event), w') \<Rightarrow>
                (case deserialise_events X es w' of
                   (Inl err, w'') \<Rightarrow> (Inl err, w'')
                 | (Inr events, w'') \<Rightarrow> (Inr (event # events), w'')))
      else deserialise_events X es w)"
  unfolding deserialise_events_def
  by (auto simp: deserialise_loop_acc [of X "[_]"] split: prod.splits sum.splits option.splits)

lemma deserialise_events_append:
  "deserialise_events X (xs @ ys) w =
     (case deserialise_events X xs w of
        (Inl err, w') \<Rightarrow> (Inl err, w')
      | (Inr events, w') \<Rightarrow>
          (case deserialise_events X ys w' of
             (Inl err, w'') \<Rightarrow> (Inl err, w'')
           | (Inr events', w'') \<Rightarrow> (Inr (events @ events'), w'')))"
proof (induction xs arbitrary: w)
  case Nil
  then show ?case by (auto simp: deserialise_events_def split: prod.splits sum.splits)
next
  case (Cons e xs)
  show ?case
    unfolding append_Cons deserialise_events_Cons
    by (auto simp: Cons.IH split: prod.splits sum.splits option.splits)
qed


lemma warnings_new:
  "warnings (snd (new_UserUttered t i e p ts c m md w)) = warnings w"
  "warnings (snd (new_BotUttered t d md ts w)) = warnings w"
  "warnings (snd (new_SlotSet k v ts md w)) = warnings w"
  "warnings (snd (new_Restarted ts md w)) = warnings w"
  "warnings (snd (new_UserUtteranceReverted ts md w)) = warnings w"
  "warnings (snd (new_AllSlotsReset ts md w)) = warnings w"
  "warnings (snd (new_ReminderScheduled a d n k ts md w)) = warnings w"
  "warnings (snd (new_ReminderCancelled a ts md w)) = warnings w"
  "warnings (snd (new_ActionReverted ts md w)) = warnings w"
  "warnings (snd (new_StoryExported p ts md w)) = warnings w"
  "warnings (snd (new_FollowupAction a ts md w)) = warnings w"
  "warnings (snd (new_ConversationPaused ts md w)) = warnings w"
  "warnings (snd (new_ConversationResumed ts md w)) = warnings w"
  "warnings (snd (new_ActionExecuted a po co ts md w)) = warnings w"
  "warnings (snd (new_AgentUttered t d ts md w)) = warnings w"
  "warnings (snd (new_Form n ts md w)) = warnings w"
  "warnings (snd (new_FormValidation v ts md w)) = warnings w"
  "warnings (snd (new_ActionExecutionRejected a po co ts md w)) = warnings w"
  by (simp_all add: new_defs split_beta Let_def snd_Event_init str_uuid1_def)

lemma warnings_call_cls: "warnings (snd (call_cls cls a b w)) = warnings w"
  by (cases cls) (simp_all add: warnings_new)

lemma warnings_cls_from_story_string:
  "warnings (snd (cls_from_story_string X cls parameters w)) = warnings w"
  by (cases cls)
     (simp_all add: story_defs UserUttered_from_story_string_eq SlotSet_slots_eq split_beta Let_def
        warnings_new warnings_call_cls split: pyval.splits sum.splits)

lemma warnings_cls_from_parameters:
  "warnings (snd (cls_from_parameters X cls parameters w)) = warnings w"
proof (cases "cls \<in> {BotUttered_cls, SlotSet_cls, AgentUttered_cls, FormValidation_cls,
                       ActionExecutionRejected_cls}")
  case True
  then show ?thesis
    by (auto simp: SlotSet_from_parameters_eq BotUttered_from_parameters_eq
          AgentUttered_from_parameters_eq FormValidation_from_parameters_def
          ActionExecutionRejected_from_parameters_def split_beta Let_def warnings_new)
next
  case False
  then have eq: "cls_from_parameters X cls parameters w = Event_from_parameters X cls parameters w"
    by (cases cls) simp_all
  from False have "cls \<noteq> SlotSet_cls" by simp
  from cls_from_story_string_single [OF this, of X parameters w]
    warnings_cls_from_story_string [of X cls parameters w]
  show ?thesis
    unfolding eq by (auto simp: Event_from_parameters_def)
qed

lemma warnings_from_parameters:
  "warnings (snd (from_parameters X parameters dflt w)) = warnings w"
  by (simp add: from_parameters_def Let_def warnings_cls_from_parameters
        split: sum.splits option.splits)

lemma deserialise_events_count:
  "deserialise_events X es w = (Inr events, w') \<Longrightarrow>
   \<exists>n. warnings w' = warnings w @ replicate n (unable_to_parse X) \<and>
       length events + n = length (filter (\<lambda>e. dict_contains e ''event'') es)"
proof (induction es arbitrary: w events w')
  case Nil
  then show ?case by (simp add: deserialise_events_def)
next
  case (Cons e es)
  show ?case
  proof (cases "dict_contains e ''event''")
    case False
    then show ?thesis using Cons.IH [of w events w'] Cons.prems
      by (simp add: deserialise_events_Cons)
  next
    case True
    obtain r w1 where r: "from_parameters X e None w = (r, w1)" by (cases "from_parameters X e None w")
    have w1: "warnings w1 = warnings w" using warnings_from_parameters [of X e None w] r by simp
    show ?thesis
    proof (cases r)
      case (Inl err)
      then show ?thesis using True r Cons.prems by (simp add: deserialise_events_Cons)
    next
      case (Inr res)
      show ?thesis
      proof (cases res)
        case None
        then have "deserialise_events X es (logger_warning (unable_to_parse X) w1) = (Inr events, w')"
          using True r Inr Cons.prems by (simp add: deserialise_events_Cons)
        from Cons.IH [OF this] obtain n where
          n: "warnings w' = warnings (logger_warning (unable_to_parse X) w1)
                @ replicate n (unable_to_parse X)"
             "length events + n = length (filter (\<lambda>e. dict_contains e ''event'') es)"
          by blast
        have "warnings w' = warnings w @ replicate (Suc n) (unable_to_parse X)"
          using n(1) w1 by (simp add: logger_warning_def)
        then show ?thesis using n(2) True by (intro exI [of _ "Suc n"]) simp
      next
        case (Some ev)
        then obtain evs where evs: "deserialise_events X es w1 = (Inr evs, w')"
          and events: "events = ev # evs"
          using True r Inr Cons.prems
          by (auto simp: deserialise_events_Cons split: prod.splits sum.splits)
        from Cons.IH [OF evs] obtain n where
          "warnings w' = warnings w1 @ replicate n (unable_to_parse X)"
          "length evs + n = length (filter (\<lambda>e. dict_contains e ''event'') es)"
          by blast
        then show ?thesis using w1 events True by (intro exI [of _ n]) simp
      qed
    qed
  qed
qed


text \<open>
  C1, as the code has it. The batch of the claim does not decode to two events: its second
  entry raises, and the error leaves \<open>deserialise_events\<close>, after the first entry was
  decoded (the clock was read once).
\<close>

theorem deserialise_events_bogus_batch_raises:
  "deserialise_events X0
     [[(''event'', PStr ''slot''), (''name'', PStr ''a''), (''value'', PInt 1)],
      [(''event'', PStr ''bogus'')],
      [(''event'', PStr ''slot''), (''name'', PStr ''b''), (''value'', PInt 2)]] W0 =
   (Inl (ValueError (''Unknown event name '' @ [CHR 0x27] @ ''bogus'' @ [CHR 0x27] @ ''.'')),
    W0\<lparr>time_calls := 1\<rparr>)"
proof -
  have bogus: "\<And>w. from_parameters X0 [(''event'', PStr ''bogus'')] None w =
      (Inl (ValueError (''Unknown event name '' @ [CHR 0x27] @ ''bogus'' @ [CHR 0x27] @ ''.'')), w)"
    by (simp add: from_parameters_def resolve_by_type_def all_subclasses_Event_def dict_defs)
  show ?thesis
    by (simp add: deserialise_events_def from_parameters_slot bogus dict_contains_def W0_def)
qed

text \<open>
  C1, amended. \<open>deserialise_events\<close> decodes the entries of every batch one by one and in
  order. An entry with no \<open>"event"\<close> key is passed over. An entry that decodes to nothing
  is dropped with one warning, and the decoding goes on. An entry that decodes to an event
  puts it before the events of the entries after it. An entry whose decoding raises is not
  dropped: the error leaves \<open>deserialise_events\<close> and no list is returned. So the batch of
  a prefix and a suffix decodes to the events of the prefix followed by those of the suffix
  (decoded in the world the prefix leaves); when a list is returned, each entry with an
  \<open>"event"\<close> key has given one event or one warning; and a batch that holds an entry with
  an unknown tag raises. The batch of two slot records around \<open>{"event": "topic"}\<close> decodes
  to exactly the two \<open>SlotSet\<close> events for \<open>a\<close> and \<open>b\<close>, with one warning logged.
\<close>

theorem deserialise_events_entry_by_entry:
  "deserialise_events X [] w = (Inr [], w) \<and>
   deserialise_events X (e # es) w =
     (if dict_contains e ''event''
      then (case from_parameters X e None w of
              (Inl err, w') \<Rightarrow> (Inl err, w')
            | (Inr None, w') \<Rightarrow>
                deserialise_events X es (logger_warning (unable_to_parse X) w')
            | (Inr (Some event), w') \<Rightarrow>
                (case deserialise_events X es w' of
                   (Inl err, w'') \<Rightarrow> (Inl err, w'')
                 | (Inr events, w'') \<Rightarrow> (Inr (event # events), w'')))
      else deserialise_events X es w) \<and>
   deserialise_events X (xs @ ys) w =
     (case deserialise_events X xs w of
        (Inl err, w') \<Rightarrow> (Inl err, w')
      | (Inr events, w') \<Rightarrow>
          (case deserialise_events X ys w' of
             (Inl err, w'') \<Rightarrow> (Inl err, w'')
           | (Inr events', w'') \<Rightarrow> (Inr (events @ events'), w''))) \<and>
   (\<forall>events w'. deserialise_events X es w = (Inr events, w') \<longrightarrow>
      (\<exists>n. warnings w' = warnings w @ replicate n (unable_to_parse X) \<and>
           length events + n = length (filter (\<lambda>e. dict_contains e ''event'') es))) \<and>
   (\<forall>bad name. bad \<in> set es \<and> dict_get bad ''event'' = name \<and> name \<noteq> PNone \<and>
        name \<notin> PStr ` set (map type_name all_subclasses_Event) \<and> name \<noteq> PStr ''topic'' \<longrightarrow>
      (\<exists>err w'. deserialise_events X es w = (Inl err, w'))) \<and>
   deserialise_events X
     [[(''event'', PStr ''slot''), (''name'', PStr ''a''), (''value'', PInt 1)],
      [(''event'', PStr ''topic'')],
      [(''event'', PStr ''slot''), (''name'', PStr ''b''), (''value'', PInt 2)]] w =
   (Inr [SlotSet \<lparr>timestamp = PFloat (time_source w (time_calls w)), metadata = PDict []\<rparr>
           (PStr ''a'') (PInt 1),
         SlotSet \<lparr>timestamp = PFloat (time_source w (Suc (time_calls w))),
                    metadata = PDict []\<rparr> (PStr ''b'') (PInt 2)],
    w\<lparr>time_calls := Suc (Suc (time_calls w)),
      warnings := warnings w @ [unable_to_parse X]\<rparr>)"
proof -
  have topic: "\<And>w. from_parameters X [(''event'', PStr ''topic'')] None w = (Inr None, w)"
    by (rule from_parameters_legacy) (simp add: dict_defs)
  have batch: "deserialise_events X
     [[(''event'', PStr ''slot''), (''name'', PStr ''a''), (''value'', PInt 1)],
      [(''event'', PStr ''topic'')],
      [(''event'', PStr ''slot''), (''name'', PStr ''b''), (''value'', PInt 2)]] w =
   (Inr [SlotSet \<lparr>timestamp = PFloat (time_source w (time_calls w)), metadata = PDict []\<rparr>
           (PStr ''a'') (PInt 1),
         SlotSet \<lparr>timestamp = PFloat (time_source w (Suc (time_calls w))),
                    metadata = PDict []\<rparr> (PStr ''b'') (PInt 2)],
    w\<lparr>time_calls := Suc (Suc (time_calls w)),
      warnings := warnings w @ [unable_to_parse X]\<rparr>)"
    by (simp add: deserialise_events_def from_parameters_slot topic dict_contains_def
          logger_warning_def)
  have abort: "\<forall>bad name. bad \<in> set es \<and> dict_get bad ''event'' = name \<and> name \<noteq> PNone \<and>
        name \<notin> PStr ` set (map type_name all_subclasses_Event) \<and> name \<noteq> PStr ''topic'' \<longrightarrow>
      (\<exists>err w'. deserialise_events X es w = (Inl err, w'))"
    using deserialise_loop_unknown_tag [of _ es _ X "[]" w]
    by (auto simp: deserialise_events_def)
  have count: "\<forall>events w'. deserialise_events X es w = (Inr events, w') \<longrightarrow>
      (\<exists>n. warnings w' = warnings w @ replicate n (unable_to_parse X) \<and>
           length events + n = length (filter (\<lambda>e. dict_contains e ''event'') es))"
    using deserialise_events_count by blast
  have nil: "deserialise_events X [] w = (Inr [], w)"
    by (simp add: deserialise_events_def)
  show ?thesis
    using nil deserialise_events_Cons [of X e es w] deserialise_events_append [of X xs ys w]
      count abort batch
    by (intro conjI) assumption+
qed


theorem deserialise_events_entry_by_entry_witness:
  "[(''event'', PStr ''bogus'')] \<in> set
     [[(''event'', PStr ''slot''), (''name'', PStr ''a''), (''value'', PInt 1)],
      [(''event'', PStr ''bogus'')],
      [(''event'', PStr ''slot''), (''name'', PStr ''b''), (''value'', PInt 2)]] \<and>
   dict_get [(''event'', PStr ''bogus'')] ''event'' = PStr ''bogus'' \<and>
   PStr ''bogus'' \<noteq> PNone \<and>
   PStr ''bogus'' \<notin> PStr ` set (map type_name all_subclasses_Event) \<and>
   PStr ''bogus'' \<noteq> PStr ''topic'' \<and>
   (\<exists>err w'. deserialise_events X0
     [[(''event'', PStr ''slot''), (''name'', PStr ''a''), (''value'', PInt 1)],
      [(''event'', PStr ''bogus'')],
      [(''event'', PStr ''slot''), (''name'', PStr ''b''), (''value'', PInt 2)]] W0 = (Inl err, w')) \<and>
   deserialise_events X0
     [[(''event'', PStr ''slot''), (''name'', PStr ''a''), (''value'', PInt 1)],
      [(''event'', PStr ''topic'')],
      [(''name'', PStr ''c'')],
      [(''event'', PStr ''slot''), (''name'', PStr ''b''), (''value'', PInt 2)]] W0 =
   (Inr [SlotSet \<lparr>timestamp = PFloat 1600000000, metadata = PDict []\<rparr> (PStr ''a'') (PInt 1),
         SlotSet \<lparr>timestamp = PFloat 1600000001, metadata = PDict []\<rparr> (PStr ''b'') (PInt 2)],
    W0\<lparr>time_calls := 2, warnings := [unable_to_parse X0]\<rparr>) \<and>
   (\<exists>n. warnings (W0\<lparr>time_calls := 2, warnings := [unable_to_parse X0]\<rparr>) =
          warnings W0 @ replicate n (unable_to_parse X0) \<and>
        2 + n = length (filter (\<lambda>e. dict_contains e ''event'')
                  [[(''event'', PStr ''slot''), (''name'', PStr ''a''), (''value'', PInt 1)],
                   [(''event'', PStr ''topic'')],
                   [(''name'', PStr ''c'')],
                   [(''event'', PStr ''slot''), (''name'', PStr ''b''), (''value'', PInt 2)]]))"
proof -
  let ?bogus = "[[(''event'', PStr ''slot''), (''name'', PStr ''a''), (''value'', PInt 1)],
      [(''event'', PStr ''bogus'')],
      [(''event'', PStr ''slot''), (''name'', PStr ''b''), (''value'', PInt 2)]]"
  let ?good = "[[(''event'', PStr ''slot''), (''name'', PStr ''a''), (''value'', PInt 1)],
      [(''event'', PStr ''topic'')],
      [(''name'', PStr ''c'')],
      [(''event'', PStr ''slot''), (''name'', PStr ''b''), (''value'', PInt 2)]]"
  have h1: "[(''event'', PStr ''bogus'')] \<in> set ?bogus" by simp
  have h2: "dict_get [(''event'', PStr ''bogus'')] ''event'' = PStr ''bogus''"
    by (simp add: dict_defs)
  have h4: "PStr ''bogus'' \<notin> PStr ` set (map type_name all_subclasses_Event)"
    by (simp add: all_subclasses_Event_def)
  have topic: "\<And>w. from_parameters X0 [(''event'', PStr ''topic'')] None w = (Inr None, w)"
    by (rule from_parameters_legacy) (simp add: dict_defs)
  have good: "deserialise_events X0 ?good W0 =
     (Inr [SlotSet \<lparr>timestamp = PFloat 1600000000, metadata = PDict []\<rparr> (PStr ''a'') (PInt 1),
           SlotSet \<lparr>timestamp = PFloat 1600000001, metadata = PDict []\<rparr> (PStr ''b'') (PInt 2)],
      W0\<lparr>time_calls := 2, warnings := [unable_to_parse X0]\<rparr>)"
    by (simp add: deserialise_events_def from_parameters_slot topic dict_contains_def
          logger_warning_def W0_def)
  have abort: "\<exists>err w'. deserialise_events X0 ?bogus W0 = (Inl err, w')"
    using deserialise_events_entry_by_entry [of X0 W0 _ ?bogus] h1 h2 h4 by blast
  have count: "\<exists>n. warnings (W0\<lparr>time_calls := 2, warnings := [unable_to_parse X0]\<rparr>) =
          warnings W0 @ replicate n (unable_to_parse X0) \<and>
        2 + n = length (filter (\<lambda>e. dict_contains e ''event'') ?good)"
    using deserialise_events_entry_by_entry [of X0 W0 _ ?good] good by auto
  show ?thesis
    using h1 h2 h4 abort good count by (intro conjI) (assumption | simp)+
qed

end
